theory Spec2Isabelle
  imports Main "HOL-Library.AList"
begin

section \<open>Python values and errors\<close>

text \<open>
  Every exception the modelled code can raise is a value of \<open>py_error\<close>; a function
  that can raise returns \<open>py_error + 'a\<close>, with \<open>Inl\<close> for the exception.
  \<open>UnknownOperator t\<close> is the \<open>ValueError(op_type)\<close> of \<open>Tree.__node_generator\<close>,
  \<open>RemoveError\<close> the \<open>ValueError\<close> of \<open>list.remove\<close> on an absent element,
  \<open>TensorDetailsError\<close> the failure of the interpreter's tensor lookup and
  \<open>LoweringError\<close> any exception raised inside a lowering routine.
\<close>

datatype py_error =
    IndexError
  | KeyError
  | ZeroDivisionError
  | RemoveError
  | UnknownOperator int
  | TensorDetailsError
  | LoweringError

definition py_index :: "'a list \<Rightarrow> nat \<Rightarrow> py_error + 'a" where
  "py_index xs i = (if i < length xs then Inr (xs ! i) else Inl IndexError)"

definition py_mod :: "int \<Rightarrow> int \<Rightarrow> py_error + int" where
  "py_mod a b = (if b = 0 then Inl ZeroDivisionError else Inr (a mod b))"

section \<open>utils.py\<close>

text \<open>
  \<open>tflite2onnx_shape_map\<close>: Python's \<open>None\<close> is \<open>None\<close>, a returned list is \<open>Some\<close>.
\<close>

definition tflite2onnx_shape_map :: "int list \<Rightarrow> int list option" where
  "tflite2onnx_shape_map shape_list =
     (if length shape_list \<noteq> 4 then None
      else Some [shape_list ! 0, shape_list ! 3, shape_list ! 1, shape_list ! 2])"

text \<open>
  One spatial dimension of the SAME branch of \<open>getPadding\<close>: the source writes the same
  \<open>if\<close>/\<open>else\<close> twice, for \<open>feat_map_size[1]\<close> with index 0 of the kernel and the strides
  and for \<open>feat_map_size[2]\<close> with index 1. The reads happen in the source's order, so
  the first failing one decides the exception.
\<close>

definition same_pad :: "int list \<Rightarrow> nat \<Rightarrow> int list \<Rightarrow> int list \<Rightarrow> nat \<Rightarrow> py_error + int" where
  "same_pad feat_map_size fi kernel_size strides d =
     (case py_index feat_map_size fi of Inl e \<Rightarrow> Inl e | Inr f \<Rightarrow>
     (case py_index strides d of Inl e \<Rightarrow> Inl e | Inr s \<Rightarrow>
     (case py_mod f s of Inl e \<Rightarrow> Inl e | Inr r \<Rightarrow>
     (case py_index kernel_size d of Inl e \<Rightarrow> Inl e | Inr k \<Rightarrow>
        if r = 0 then Inr (max (k - s) 0) else Inr (max (k - r) 0)))))"

definition getPadding :: "int list \<Rightarrow> int list \<Rightarrow> int list \<Rightarrow> string \<Rightarrow> py_error + int list option" where
  "getPadding feat_map_size kernel_size strides mode =
     (if mode \<noteq> ''VALID'' \<and> mode \<noteq> ''SAME'' then Inr None
      else if mode = ''VALID'' then Inr (Some [0, 0, 0, 0])
      else
        (case same_pad feat_map_size 1 kernel_size strides 0 of Inl e \<Rightarrow> Inl e | Inr pad_h \<Rightarrow>
        (case same_pad feat_map_size 2 kernel_size strides 1 of Inl e \<Rightarrow> Inl e | Inr pad_w \<Rightarrow>
          Inr (Some [pad_h div 2, pad_w div 2, pad_h - pad_h div 2, pad_w - pad_w div 2]))))"

text \<open>
  The SAME-mode formula in the specification's words: the padding a spatial dimension
  of size \<open>f\<close> needs for kernel size \<open>k\<close> and stride \<open>s\<close>.
\<close>

definition spec_need :: "int \<Rightarrow> int \<Rightarrow> int \<Rightarrow> int" where
  "spec_need f k s = (if f mod s = 0 then max (k - s) 0 else max (k - f mod s) 0)"

section \<open>The source model and the interpreter\<close>

text \<open>
  The flatbuffer reader and the TFLite interpreter are external. An operator record
  gives \<open>op.Inputs(i)\<close> for \<open>i < op.InputsLength()\<close> as \<open>op_inputs\<close>,
  \<open>op.Outputs(0)\<close> as \<open>op_output0\<close> and the builtin code of its opcode as
  \<open>op_code\<close>. \<open>tensor_details m i\<close> is \<open>interpreter._get_tensor_details(i)\<close>,
  \<open>None\<close> when the interpreter raises.
\<close>

record operator =
  op_inputs :: "int list"
  op_output0 :: int
  op_code :: int
  op_fused :: "int option"

record tensor_detail =
  t_index :: int
  t_name :: string
  t_shape :: "int list"

record tflite_model =
  operators :: "operator list"
  tensor_details :: "int \<Rightarrow> tensor_detail option"
  input_details :: "tensor_detail list"
  output_details :: "tensor_detail list"

text \<open>
  The constants of \<open>tflite.BuiltinOperator\<close> and \<open>tflite.ActivationFunctionType\<close>
  (generated from the TFLite schema, not part of the five source files), with the
  schema's values.
\<close>

definition BuiltinOperator_ADD :: int where "BuiltinOperator_ADD = 0"
definition BuiltinOperator_AVERAGE_POOL_2D :: int where "BuiltinOperator_AVERAGE_POOL_2D = 1"
definition BuiltinOperator_CONCATENATION :: int where "BuiltinOperator_CONCATENATION = 2"
definition BuiltinOperator_CONV_2D :: int where "BuiltinOperator_CONV_2D = 3"
definition BuiltinOperator_DEPTHWISE_CONV_2D :: int where "BuiltinOperator_DEPTHWISE_CONV_2D = 4"
definition BuiltinOperator_FULLY_CONNECTED :: int where "BuiltinOperator_FULLY_CONNECTED = 9"
definition BuiltinOperator_L2_NORMALIZATION :: int where "BuiltinOperator_L2_NORMALIZATION = 11"
definition BuiltinOperator_LOGISTIC :: int where "BuiltinOperator_LOGISTIC = 14"
definition BuiltinOperator_MAX_POOL_2D :: int where "BuiltinOperator_MAX_POOL_2D = 17"
definition BuiltinOperator_MUL :: int where "BuiltinOperator_MUL = 18"
definition BuiltinOperator_RELU :: int where "BuiltinOperator_RELU = 19"
definition BuiltinOperator_RELU6 :: int where "BuiltinOperator_RELU6 = 21"
definition BuiltinOperator_RESHAPE :: int where "BuiltinOperator_RESHAPE = 22"
definition BuiltinOperator_RESIZE_BILINEAR :: int where "BuiltinOperator_RESIZE_BILINEAR = 23"
definition BuiltinOperator_SOFTMAX :: int where "BuiltinOperator_SOFTMAX = 25"
definition BuiltinOperator_PAD :: int where "BuiltinOperator_PAD = 34"
definition BuiltinOperator_MEAN :: int where "BuiltinOperator_MEAN = 40"
definition BuiltinOperator_SQUEEZE :: int where "BuiltinOperator_SQUEEZE = 43"
definition BuiltinOperator_PRELU :: int where "BuiltinOperator_PRELU = 54"
definition BuiltinOperator_TRANSPOSE_CONV :: int where "BuiltinOperator_TRANSPOSE_CONV = 67"
definition BuiltinOperator_RESIZE_NEAREST_NEIGHBOR :: int where
  "BuiltinOperator_RESIZE_NEAREST_NEIGHBOR = 97"

definition ActivationFunctionType_NONE :: int where "ActivationFunctionType_NONE = 0"
definition ActivationFunctionType_RELU :: int where "ActivationFunctionType_RELU = 1"
definition ActivationFunctionType_RELU_N1_TO_1 :: int where "ActivationFunctionType_RELU_N1_TO_1 = 2"
definition ActivationFunctionType_RELU6 :: int where "ActivationFunctionType_RELU6 = 3"
definition ActivationFunctionType_TANH :: int where "ActivationFunctionType_TANH = 4"
definition ActivationFunctionType_SIGN_BIT :: int where "ActivationFunctionType_SIGN_BIT = 5"

section \<open>base\_layer.py and aact\_layers.py: graph nodes\<close>

text \<open>
  A \<open>Layer\<close> object: its Python class and the attributes \<open>Layer.__init__\<close> sets.
  The interpreter every layer stores is the one of the model, passed where it is used.
\<close>

datatype layer_class =
    Convolution | DepthwiseConvolution | Softmax | Relu | Relu6 | PRelu | LOGISTIC
  | Dense | Reshape | Pad | Add | Mul | Concatenation | Mean | MaxPooling2D
  | AveragePooling2D | Squeeze | ResizeNearestNeighbor | ResizeBilinear
  | L2Normalization | TransposeConvolution | ReluDefused | Relu6Defused

record layer =
  layer_class :: layer_class
  op :: "operator option"
  op_type :: int
  node_idx :: int
  node_name :: string
  input_nodes_idx :: "int list"
  input_nodes_name :: "string list"
  output_nodes_idx :: "int list"
  output_nodes_name :: "string list"

datatype py_warning = NotSupport string | NotInSpecification int

text \<open>
  \<open>Layer.__init__\<close>: \<open>__init_node_info\<close>, \<open>__init_inputs\<close>, \<open>__init_outputs\<close>.
\<close>

definition Layer_init :: "layer_class \<Rightarrow> tflite_model \<Rightarrow> operator option \<Rightarrow> int \<Rightarrow> py_error + layer" where
  "Layer_init cls m opr opt =
     (case opr of
        None \<Rightarrow>
          Inr \<lparr>layer_class = cls, op = None, op_type = opt, node_idx = - 1,
               node_name = ''fused_node'', input_nodes_idx = [], input_nodes_name = [],
               output_nodes_idx = [], output_nodes_name = []\<rparr>
      | Some p \<Rightarrow>
          (case tensor_details m (op_output0 p) of
             None \<Rightarrow> Inl TensorDetailsError
           | Some node_output_detail \<Rightarrow>
               (case those (map (tensor_details m) (op_inputs p)) of
                  None \<Rightarrow> Inl TensorDetailsError
                | Some ds \<Rightarrow>
                    Inr \<lparr>layer_class = cls, op = Some p, op_type = opt,
                         node_idx = t_index node_output_detail,
                         node_name = t_name node_output_detail,
                         input_nodes_idx = op_inputs p,
                         input_nodes_name = map t_name ds,
                         output_nodes_idx = [], output_nodes_name = []\<rparr>)))"

text \<open>\<open>ActivationDefused.__init__\<close>, shared by \<open>ReluDefused\<close> and \<open>Relu6Defused\<close>.\<close>

definition ActivationDefused_init :: "layer_class \<Rightarrow> tflite_model \<Rightarrow> operator option \<Rightarrow> int \<Rightarrow> py_error + layer" where
  "ActivationDefused_init cls m opr opt =
     (case Layer_init cls m opr opt of
        Inl e \<Rightarrow> Inl e
      | Inr l \<Rightarrow> Inr (l\<lparr>node_name := node_name l @ ''_Fused''\<rparr>))"

text \<open>
  \<open>defused_activation_node_generator\<close>: the warnings it emits, and its result.
\<close>

definition defused_activation_node_generator ::
  "tflite_model \<Rightarrow> int \<Rightarrow> operator option \<Rightarrow> int \<Rightarrow> py_warning list \<times> (py_error + layer option)" where
  "defused_activation_node_generator m activation_function_type opr opt =
     (if ActivationFunctionType_NONE = activation_function_type then ([], Inr None)
      else if ActivationFunctionType_RELU = activation_function_type then
        ([], case ActivationDefused_init ReluDefused m opr opt of
               Inl e \<Rightarrow> Inl e | Inr l \<Rightarrow> Inr (Some l))
      else if ActivationFunctionType_RELU_N1_TO_1 = activation_function_type then
        ([NotSupport ''RELU_N1_TO_1''], Inr None)
      else if ActivationFunctionType_RELU6 = activation_function_type then
        ([], case ActivationDefused_init Relu6Defused m opr opt of
               Inl e \<Rightarrow> Inl e | Inr l \<Rightarrow> Inr (Some l))
      else if ActivationFunctionType_TANH = activation_function_type then
        ([NotSupport ''TANH''], Inr None)
      else if ActivationFunctionType_SIGN_BIT = activation_function_type then
        ([NotSupport ''SIGN_BIT''], Inr None)
      else ([NotInSpecification activation_function_type], Inr None))"

text \<open>
  \<open>defuse_activation_function\<close>. The seven classes of aact\_layers.py, the two
  synthesized ones among them, do not override \<open>Layer.defuse_activation_function\<close>,
  which returns \<open>None\<close>. Modelled from the spec: the overrides of
  \<open>defuse_activation_function\<close> in conv\_layers.py, core\_layers.py, merg\_layers.py
  and pool\_layers.py, which are not among the source files. The operator kinds that carry
  an embedded fused activation hand its code to \<open>defused_activation_node_generator\<close>;
  \<open>op_fused\<close> is that code, and \<open>None\<close> for a layer whose class keeps the method
  of \<open>Layer\<close>.
\<close>

definition keeps_base_defuse :: "layer_class \<Rightarrow> bool" where
  "keeps_base_defuse c =
     (c = Relu \<or> c = Relu6 \<or> c = Softmax \<or> c = LOGISTIC \<or> c = PRelu \<or>
      c = ReluDefused \<or> c = Relu6Defused)"

definition defuse_activation_function :: "tflite_model \<Rightarrow> layer \<Rightarrow> py_warning list \<times> (py_error + layer option)" where
  "defuse_activation_function m l =
     (if keeps_base_defuse (layer_class l) then ([], Inr None)
      else
        (case op l of
           None \<Rightarrow> ([], Inr None)
         | Some p \<Rightarrow>
             (case op_fused p of
                None \<Rightarrow> ([], Inr None)
              | Some a \<Rightarrow> defused_activation_node_generator m a (op l) (op_type l))))"

section \<open>tree\_structure.py: the graph builder\<close>

text \<open>
  \<open>Tree.__nodes\<close> is a Python dict from node name to layer object: an association
  list in insertion order, written with \<open>AList.update\<close> (replace in place, or append)
  and read with \<open>map_of\<close>. Each key holds its own object, so a mutation of the object
  at a key is \<open>AList.map_entry\<close> at that key.
\<close>

type_synonym graph = "(string \<times> layer) list"

text \<open>
  \<open>Tree.__node_generator\<close>. Modelled from the spec: the constructors of the layer
  classes of conv\_layers.py, core\_layers.py, merg\_layers.py and pool\_layers.py, which
  are not among the source files, build the node as \<open>Layer.__init__\<close> does, like the
  five constructors of aact\_layers.py.
\<close>

definition node_generator :: "tflite_model \<Rightarrow> operator \<Rightarrow> int \<Rightarrow> py_error + layer" where
  "node_generator m p opt =
     (if opt = BuiltinOperator_CONV_2D then Layer_init Convolution m (Some p) opt
      else if opt = BuiltinOperator_DEPTHWISE_CONV_2D then Layer_init DepthwiseConvolution m (Some p) opt
      else if opt = BuiltinOperator_SOFTMAX then Layer_init Softmax m (Some p) opt
      else if opt = BuiltinOperator_RELU then Layer_init Relu m (Some p) opt
      else if opt = BuiltinOperator_RELU6 then Layer_init Relu6 m (Some p) opt
      else if opt = BuiltinOperator_PRELU then Layer_init PRelu m (Some p) opt
      else if opt = BuiltinOperator_LOGISTIC then Layer_init LOGISTIC m (Some p) opt
      else if opt = BuiltinOperator_FULLY_CONNECTED then Layer_init Dense m (Some p) opt
      else if opt = BuiltinOperator_RESHAPE then Layer_init Reshape m (Some p) opt
      else if opt = BuiltinOperator_PAD then Layer_init Pad m (Some p) opt
      else if opt = BuiltinOperator_ADD then Layer_init Add m (Some p) opt
      else if opt = BuiltinOperator_MUL then Layer_init Mul m (Some p) opt
      else if opt = BuiltinOperator_CONCATENATION then Layer_init Concatenation m (Some p) opt
      else if opt = BuiltinOperator_MEAN then Layer_init Mean m (Some p) opt
      else if opt = BuiltinOperator_MAX_POOL_2D then Layer_init MaxPooling2D m (Some p) opt
      else if opt = BuiltinOperator_AVERAGE_POOL_2D then Layer_init AveragePooling2D m (Some p) opt
      else if opt = BuiltinOperator_SQUEEZE then Layer_init Squeeze m (Some p) opt
      else if opt = BuiltinOperator_RESIZE_NEAREST_NEIGHBOR then Layer_init ResizeNearestNeighbor m (Some p) opt
      else if opt = BuiltinOperator_RESIZE_BILINEAR then Layer_init ResizeBilinear m (Some p) opt
      else if opt = BuiltinOperator_L2_NORMALIZATION then Layer_init L2Normalization m (Some p) opt
      else if opt = BuiltinOperator_TRANSPOSE_CONV then Layer_init TransposeConvolution m (Some p) opt
      else Inl (UnknownOperator opt))"

text \<open>\<open>Tree.__init_op_info\<close>: the operators and their kinds, in source order.\<close>

definition init_op_info :: "tflite_model \<Rightarrow> operator list \<times> int list" where
  "init_op_info m = (operators m, map op_code (operators m))"

text \<open>\<open>Tree.__parse_graph\<close>: the loop over \<open>enumerate(self.__tflite_ops)\<close>.\<close>

fun parse_graph_loop :: "tflite_model \<Rightarrow> (operator \<times> int) list \<Rightarrow> graph \<Rightarrow> py_error + graph" where
  "parse_graph_loop m [] nodes = Inr nodes"
| "parse_graph_loop m ((p, opt) # rest) nodes =
     (case node_generator m p opt of
        Inl e \<Rightarrow> Inl e
      | Inr node \<Rightarrow> parse_graph_loop m rest (AList.update (node_name node) node nodes))"

definition parse_graph :: "tflite_model \<Rightarrow> py_error + graph" where
  "parse_graph m =
     (case init_op_info m of (tflite_ops, tflite_op_types) \<Rightarrow>
        parse_graph_loop m (zip tflite_ops tflite_op_types) [])"

text \<open>
  \<open>Tree.__eliminate_side_input\<close>: the index pass over all nodes, then the name pass.
  Neither pass can raise, and nothing compares the two results.
\<close>

definition eliminate_side_input :: "graph \<Rightarrow> graph" where
  "eliminate_side_input nodes =
     (let nodes_idx = map (\<lambda>kv. node_idx (snd kv)) nodes;
          nodes1 = map (\<lambda>kv. (fst kv, (snd kv)\<lparr>input_nodes_idx :=
                      filter (\<lambda>i. i \<in> set nodes_idx) (input_nodes_idx (snd kv))\<rparr>)) nodes;
          nodes_name = map fst nodes1
      in map (\<lambda>kv. (fst kv, (snd kv)\<lparr>input_nodes_name :=
                      filter (\<lambda>n. n \<in> set nodes_name) (input_nodes_name (snd kv))\<rparr>)) nodes1)"

text \<open>
  \<open>Tree.__init_outputs_node_info\<close>. \<open>nodes_idx_dict\<close> holds references to the layer
  objects of \<open>__nodes\<close>; a reference is the key of the object. The guard on
  \<open>self.__nodes is None\<close> never fires, \<open>__nodes\<close> being a dict.
\<close>

definition nodes_idx_dict_of :: "graph \<Rightarrow> (int \<times> string) list" where
  "nodes_idx_dict_of nodes =
     fold (\<lambda>kv d. AList.update (node_idx (snd kv)) (fst kv) d) nodes []"

text \<open>The inner loop \<open>nodes_idx_dict[input_node_idx].output_nodes_idx.append(idx)\<close>.\<close>

fun append_output_idx :: "(int \<times> string) list \<Rightarrow> int \<Rightarrow> int list \<Rightarrow> graph \<Rightarrow> py_error + graph" where
  "append_output_idx d idx [] nodes = Inr nodes"
| "append_output_idx d idx (input_node_idx # rest) nodes =
     (case map_of d input_node_idx of
        None \<Rightarrow> Inl KeyError
      | Some k \<Rightarrow>
          append_output_idx d idx rest
            (AList.map_entry k (\<lambda>n. n\<lparr>output_nodes_idx := output_nodes_idx n @ [idx]\<rparr>) nodes))"

fun init_output_idx_loop :: "(int \<times> string) list \<Rightarrow> (int \<times> string) list \<Rightarrow> graph \<Rightarrow> py_error + graph" where
  "init_output_idx_loop d [] nodes = Inr nodes"
| "init_output_idx_loop d ((idx, k) # rest) nodes =
     (case map_of nodes k of
        None \<Rightarrow> Inl KeyError
      | Some node \<Rightarrow>
          (case append_output_idx d idx (input_nodes_idx node) nodes of
             Inl e \<Rightarrow> Inl e
           | Inr nodes' \<Rightarrow> init_output_idx_loop d rest nodes'))"

text \<open>
  The loop \<open>self.__nodes[nodes_idx_dict[idx].node_name].output_nodes_idx = ...\<close>.
\<close>

fun copy_output_idx_loop :: "(int \<times> string) list \<Rightarrow> graph \<Rightarrow> py_error + graph" where
  "copy_output_idx_loop [] nodes = Inr nodes"
| "copy_output_idx_loop ((idx, k) # rest) nodes =
     (case map_of nodes k of
        None \<Rightarrow> Inl KeyError
      | Some node \<Rightarrow>
          (case map_of nodes (node_name node) of
             None \<Rightarrow> Inl KeyError
           | Some target \<Rightarrow>
               copy_output_idx_loop rest
                 (AList.map_entry (node_name node)
                    (\<lambda>n. n\<lparr>output_nodes_idx := output_nodes_idx node\<rparr>) nodes)))"

text \<open>The name loop, with its guard against a second entry for the same consumer.\<close>

fun append_output_name :: "string \<Rightarrow> string list \<Rightarrow> graph \<Rightarrow> py_error + graph" where
  "append_output_name k [] nodes = Inr nodes"
| "append_output_name k (input_node_name # rest) nodes =
     (case map_of nodes input_node_name of
        None \<Rightarrow> Inl KeyError
      | Some producer \<Rightarrow>
          append_output_name k rest
            (if \<not> (k \<in> set (output_nodes_name producer)) then
               AList.map_entry input_node_name
                 (\<lambda>n. n\<lparr>output_nodes_name := output_nodes_name n @ [k]\<rparr>) nodes
             else nodes))"

fun init_output_name_loop :: "string list \<Rightarrow> graph \<Rightarrow> py_error + graph" where
  "init_output_name_loop [] nodes = Inr nodes"
| "init_output_name_loop (k # rest) nodes =
     (case map_of nodes k of
        None \<Rightarrow> Inl KeyError
      | Some node \<Rightarrow>
          (case append_output_name k (input_nodes_name node) nodes of
             Inl e \<Rightarrow> Inl e
           | Inr nodes' \<Rightarrow> init_output_name_loop rest nodes'))"

definition init_outputs_node_info :: "graph \<Rightarrow> py_error + graph" where
  "init_outputs_node_info nodes =
     (let nodes_idx_dict = nodes_idx_dict_of nodes in
      case init_output_idx_loop nodes_idx_dict nodes_idx_dict nodes of
        Inl e \<Rightarrow> Inl e
      | Inr nodes1 \<Rightarrow>
          (case copy_output_idx_loop nodes_idx_dict nodes1 of
             Inl e \<Rightarrow> Inl e
           | Inr nodes2 \<Rightarrow> init_output_name_loop (map fst nodes2) nodes2))"

text \<open>
  \<open>Tree.__defused\<close>. \<open>list.remove\<close> deletes the first occurrence and raises when
  there is none.
\<close>

definition py_remove :: "'a \<Rightarrow> 'a list \<Rightarrow> py_error + 'a list" where
  "py_remove x xs = (if x \<in> set xs then Inr (remove1 x xs) else Inl RemoveError)"

fun remove_each :: "'a list \<Rightarrow> 'a list \<Rightarrow> py_error + 'a list" where
  "remove_each [] xs = Inr xs"
| "remove_each (r # rs) xs =
     (case py_remove r xs of Inl e \<Rightarrow> Inl e | Inr xs' \<Rightarrow> remove_each rs xs')"

text \<open>The loop "modify output node" over \<open>fused_node_outputs_name\<close>.\<close>

fun modify_output_nodes :: "string \<Rightarrow> string \<Rightarrow> string list \<Rightarrow> graph \<Rightarrow> py_error + graph" where
  "modify_output_nodes remove_name add_name [] nodes = Inr nodes"
| "modify_output_nodes remove_name add_name (output_node_name # rest) nodes =
     (case map_of nodes output_node_name of
        None \<Rightarrow> Inl KeyError
      | Some output_node \<Rightarrow>
          (case py_remove remove_name (input_nodes_name output_node) of
             Inl e \<Rightarrow> Inl e
           | Inr ins \<Rightarrow>
               modify_output_nodes remove_name add_name rest
                 (AList.map_entry output_node_name
                    (\<lambda>n. n\<lparr>input_nodes_name := ins @ [add_name]\<rparr>) nodes)))"

text \<open>
  The state of the loop over the nodes: the graph, \<open>add_defused_activation_node_list\<close>
  and the warnings emitted so far. \<open>defuse_node\<close> is the loop body for the key \<open>k\<close>.
\<close>

type_synonym defuse_state = "graph \<times> layer list \<times> py_warning list"

definition defuse_node :: "tflite_model \<Rightarrow> string \<Rightarrow> defuse_state \<Rightarrow> py_error + defuse_state" where
  "defuse_node m k st =
     (case st of (nodes, add_list, ws) \<Rightarrow>
      (case map_of nodes k of
         None \<Rightarrow> Inl KeyError
       | Some node \<Rightarrow>
           (case defuse_activation_function m node of (w, r) \<Rightarrow>
            (case r of
               Inl e \<Rightarrow> Inl e
             | Inr None \<Rightarrow> Inr (nodes, add_list, ws @ w)
             | Inr (Some created) \<Rightarrow>
                 (let defused_activation_node = created\<lparr>node_idx := - 1\<rparr>;
                      input_node_outputs_remove_name = output_nodes_name node;
                      input_node_outputs_add_name = node_name defused_activation_node;
                      fused_node_inputs_name = [node_name node];
                      fused_node_outputs_name = output_nodes_name node;
                      output_node_inputs_remove_node_name = node_name node;
                      output_node_inputs_add_node_name = node_name defused_activation_node
                  in
                  (case remove_each input_node_outputs_remove_name (output_nodes_name node) of
                     Inl e \<Rightarrow> Inl e
                   | Inr outs \<Rightarrow>
                       (let nodes1 = AList.map_entry k
                              (\<lambda>n. n\<lparr>output_nodes_name := outs @ [input_node_outputs_add_name]\<rparr>) nodes;
                            fused = defused_activation_node
                              \<lparr>input_nodes_name := fused_node_inputs_name,
                               output_nodes_name := fused_node_outputs_name\<rparr>
                        in
                        (case modify_output_nodes output_node_inputs_remove_node_name
                                output_node_inputs_add_node_name fused_node_outputs_name nodes1 of
                           Inl e \<Rightarrow> Inl e
                         | Inr nodes2 \<Rightarrow> Inr (nodes2, add_list @ [fused], ws @ w)))))))))"

fun defuse_loop :: "tflite_model \<Rightarrow> string list \<Rightarrow> defuse_state \<Rightarrow> py_error + defuse_state" where
  "defuse_loop m [] st = Inr st"
| "defuse_loop m (k # ks) st =
     (case defuse_node m k st of Inl e \<Rightarrow> Inl e | Inr st' \<Rightarrow> defuse_loop m ks st')"

definition add_fused_nodes :: "layer list \<Rightarrow> graph \<Rightarrow> graph" where
  "add_fused_nodes add_list nodes =
     fold (\<lambda>defused_activation_node g.
             AList.update (node_name defused_activation_node) defused_activation_node g)
          add_list nodes"

definition defused :: "tflite_model \<Rightarrow> bool \<Rightarrow> graph \<Rightarrow> py_error + graph \<times> py_warning list" where
  "defused m enable_defuse nodes =
     (if \<not> enable_defuse then Inr (nodes, [])
      else
        (case defuse_loop m (map fst nodes) (nodes, [], []) of
           Inl e \<Rightarrow> Inl e
         | Inr (nodes', add_list, ws) \<Rightarrow> Inr (add_fused_nodes add_list nodes', ws)))"

text \<open>
  \<open>Tree.__init__\<close> followed by \<open>get_nodes\<close>: the graph, and the warnings of the
  de-fusion pass.
\<close>

definition Tree :: "tflite_model \<Rightarrow> bool \<Rightarrow> py_error + graph \<times> py_warning list" where
  "Tree m defuse =
     (case parse_graph m of
        Inl e \<Rightarrow> Inl e
      | Inr nodes \<Rightarrow>
          (case init_outputs_node_info (eliminate_side_input nodes) of
             Inl e \<Rightarrow> Inl e
           | Inr nodes' \<Rightarrow> defused m defuse nodes'))"

section \<open>tflite2onnx.py: the pipeline driver\<close>

text \<open>
  The target format builder is external. A node has its kind, name, inputs, outputs and
  integer-list attributes (the permutation of a transpose); a value info has a name and
  a shape, absent when \<open>make_tensor_value_info\<close> is given \<open>None\<close>; a constant
  tensor has a name and its dimensions.
\<close>

record onnx_node =
  n_op_type :: string
  n_name :: string
  n_inputs :: "string list"
  n_outputs :: "string list"
  n_attrs :: "(string \<times> int list) list"

record value_info =
  vi_name :: string
  vi_shape :: "int list option"

record onnx_tensor =
  ot_name :: string
  ot_dims :: "int list"

record onnx_graph =
  g_nodes :: "onnx_node list"
  g_inputs :: "value_info list"
  g_outputs :: "value_info list"
  g_initializer :: "onnx_tensor list"
  g_value_info :: "value_info list"

definition make_tensor_value_info :: "string \<Rightarrow> int list option \<Rightarrow> value_info" where
  "make_tensor_value_info name shape = \<lparr>vi_name = name, vi_shape = shape\<rparr>"

definition get_output_node_info_by_name_if_exist :: "string \<Rightarrow> tflite_model \<Rightarrow> tensor_detail option" where
  "get_output_node_info_by_name_if_exist name m =
     find (\<lambda>node_info. name = t_name node_info) (output_details m)"

text \<open>
  \<open>make_kneron_valid_onnx_input\<close> on the value info of the model input followed by
  the constant tensors: a tensor becomes a value info of its name and dimensions.
\<close>

definition make_kneron_valid_onnx_input :: "value_info \<Rightarrow> onnx_tensor list \<Rightarrow> value_info list" where
  "make_kneron_valid_onnx_input input_tensor_value_info weights =
     input_tensor_value_info #
       map (\<lambda>data. make_tensor_value_info (ot_name data) (Some (ot_dims data))) weights"

text \<open>
  \<open>set_end_node\<close> and \<open>build_button_transpose_node_for_channel_first_2_channel_last\<close>
  assign to \<open>onnx_end_node.output\<close>; they return here the end node after the call as
  well.
\<close>

definition set_end_node :: "onnx_node \<Rightarrow> tensor_detail \<Rightarrow> value_info \<times> onnx_node" where
  "set_end_node onnx_end_node tflite_out_info =
     (let out_value_info_name = ''out_'' @ n_name onnx_end_node;
          out_value_info = make_tensor_value_info out_value_info_name
                             (tflite2onnx_shape_map (t_shape tflite_out_info))
      in (out_value_info, onnx_end_node\<lparr>n_outputs := [out_value_info_name]\<rparr>))"

definition build_button_transpose_node ::
  "onnx_node \<Rightarrow> tensor_detail \<Rightarrow> value_info \<times> onnx_node option \<times> onnx_node" where
  "build_button_transpose_node onnx_end_node tflite_out_info =
     (let out_value_info_name = ''out_'' @ n_name onnx_end_node;
          out_value_info = make_tensor_value_info out_value_info_name
                             (Some (t_shape tflite_out_info))
      in if length (t_shape tflite_out_info) = 4 then
           (out_value_info,
            Some \<lparr>n_op_type = ''Transpose'',
                  n_name = ''transpose_node_output_'' @ n_name onnx_end_node,
                  n_inputs = [n_name onnx_end_node], n_outputs = [out_value_info_name],
                  n_attrs = [(''perm'', [0, 2, 3, 1])]\<rparr>,
            onnx_end_node)
         else if length (t_shape tflite_out_info) = 3 then
           (out_value_info,
            Some \<lparr>n_op_type = ''Transpose'',
                  n_name = ''transpose_node_output_'' @ n_name onnx_end_node,
                  n_inputs = [n_name onnx_end_node], n_outputs = [out_value_info_name],
                  n_attrs = [(''perm'', [0, 2, 1])]\<rparr>,
            onnx_end_node)
         else (out_value_info, None, onnx_end_node\<lparr>n_outputs := [out_value_info_name]\<rparr>))"

definition build_head_transpose_node :: "string \<Rightarrow> onnx_node" where
  "build_head_transpose_node input_name =
     \<lparr>n_op_type = ''Transpose'', n_name = ''transpose_node_input_'' @ input_name,
      n_inputs = [input_name], n_outputs = [''transpose_node_input_'' @ input_name],
      n_attrs = [(''perm'', [0, 3, 1, 2])]\<rparr>"

text \<open>
  A lowering routine, \<open>init_generate(...).generate(...)\<close> of a layer: it is given the model
  (the interpreter), the layer, \<open>previous_onnx_node_names\<close> and, for the three merge
  kinds, the translation table; it returns the nodes, the value infos and the constant
  tensors, or raises. The routines of most layer classes are outside the source files, so
  the driver takes the routine as a parameter.
\<close>

type_synonym sub_op_table = "(string \<times> string list) list"

type_synonym lowered = "onnx_node list \<times> value_info list \<times> onnx_tensor list"

type_synonym lowering =
  "tflite_model \<Rightarrow> layer \<Rightarrow> string list \<Rightarrow> sub_op_table option \<Rightarrow> py_error + lowered"

record main_state =
  op_name__sub_op_name__table :: sub_op_table
  onnx_weight_node_list :: "onnx_tensor list"
  output_tensor_value_info :: "value_info list"
  onnx_node_list :: "onnx_node list"
  inner_node_shape_value_info :: "value_info list"

text \<open>
  The name handed to lowering: \<open>prev_node_name\<close> after lines 147 to 150 of the driver.
  \<open>[-1]\<close> on an empty list raises \<open>IndexError\<close>.
\<close>

definition prev_node_name_of :: "sub_op_table \<Rightarrow> string \<Rightarrow> layer \<Rightarrow> py_error + string" where
  "prev_node_name_of table model_input_name node =
     (let prev_node_name =
            (if input_nodes_name node \<noteq> [] then hd (input_nodes_name node)
             else model_input_name)
      in case map_of table prev_node_name of
           None \<Rightarrow> Inr prev_node_name
         | Some subs \<Rightarrow> (if subs = [] then Inl IndexError else Inr (last subs)))"

text \<open>
  The arguments of the lowering call of a node: the list of predecessor names, and the
  table for the kinds add, mul and concatenation.
\<close>

definition lowering_arguments ::
  "sub_op_table \<Rightarrow> string \<Rightarrow> layer \<Rightarrow> py_error + string list \<times> sub_op_table option" where
  "lowering_arguments table model_input_name node =
     (case prev_node_name_of table model_input_name node of
        Inl e \<Rightarrow> Inl e
      | Inr prev_node_name \<Rightarrow>
          (if op_type node \<in> set [BuiltinOperator_ADD, BuiltinOperator_MUL,
                                    BuiltinOperator_CONCATENATION]
           then Inr ([prev_node_name], Some table)
           else Inr ([prev_node_name], None)))"

text \<open>
  \<open>sub_op_node_list[-1]\<close> is an object of \<open>nodes\<close>, which \<open>onnx_node_list\<close> holds
  too: the assignment to its outputs is a change of the last node of \<open>nodes\<close> that is
  not a \<open>Constant\<close>.
\<close>

fun update_end_node :: "(onnx_node \<Rightarrow> onnx_node) \<Rightarrow> onnx_node list \<Rightarrow> onnx_node list" where
  "update_end_node f [] = []"
| "update_end_node f (n # ns) =
     (if n_op_type n \<noteq> ''Constant'' \<and> filter (\<lambda>x. n_op_type x \<noteq> ''Constant'') ns = []
      then f n # ns else n # update_end_node f ns)"

text \<open>
  The rest of the loop body, after the lowering call returned \<open>(nodes, val, weight)\<close>.
\<close>

definition finish_step :: "tflite_model \<Rightarrow> bool \<Rightarrow> string \<Rightarrow> lowered \<Rightarrow> main_state \<Rightarrow> py_error + main_state" where
  "finish_step m add_transpose key r st =
     (case r of (nodes, val, weight) \<Rightarrow>
      (let sub_op_node_list = filter (\<lambda>node. n_op_type node \<noteq> ''Constant'') nodes;
           st1 = st\<lparr>op_name__sub_op_name__table :=
                       AList.update key (map n_name sub_op_node_list)
                         (op_name__sub_op_name__table st),
                     inner_node_shape_value_info := inner_node_shape_value_info st @ val,
                     onnx_weight_node_list := onnx_weight_node_list st @ weight\<rparr>
       in case get_output_node_info_by_name_if_exist key m of
            None \<Rightarrow> Inr (st1\<lparr>onnx_node_list := onnx_node_list st @ nodes\<rparr>)
          | Some output_node_info \<Rightarrow>
              (if sub_op_node_list = [] then Inl IndexError
               else if add_transpose then
                 (case build_button_transpose_node (last sub_op_node_list) output_node_info of
                    (out_value_info, transpose_node, end_node) \<Rightarrow>
                      Inr (st1\<lparr>output_tensor_value_info :=
                                  output_tensor_value_info st @ [out_value_info],
                                onnx_node_list :=
                                  onnx_node_list st @ update_end_node (\<lambda>n. end_node) nodes
                                  @ (case transpose_node of None \<Rightarrow> [] | Some t \<Rightarrow> [t])\<rparr>))
               else
                 (case set_end_node (last sub_op_node_list) output_node_info of
                    (out_value_info, end_node) \<Rightarrow>
                      Inr (st1\<lparr>output_tensor_value_info :=
                                  output_tensor_value_info st @ [out_value_info],
                                onnx_node_list :=
                                  onnx_node_list st @ update_end_node (\<lambda>n. end_node) nodes\<rparr>)))))"

text \<open>The loop body for the key \<open>key\<close> of \<open>tree_dict\<close>.\<close>

definition main_step ::
  "lowering \<Rightarrow> tflite_model \<Rightarrow> bool \<Rightarrow> string \<Rightarrow> graph \<Rightarrow> string \<Rightarrow> main_state \<Rightarrow> py_error + main_state" where
  "main_step lower m add_transpose model_input_name tree_dict key st =
     (case map_of tree_dict key of
        None \<Rightarrow> Inl KeyError
      | Some node \<Rightarrow>
          (case lowering_arguments (op_name__sub_op_name__table st) model_input_name node of
             Inl e \<Rightarrow> Inl e
           | Inr (prevs, table) \<Rightarrow>
               (case lower m node prevs table of
                  Inl e \<Rightarrow> Inl e
                | Inr r \<Rightarrow> finish_step m add_transpose key r st)))"

fun main_loop ::
  "lowering \<Rightarrow> tflite_model \<Rightarrow> bool \<Rightarrow> string \<Rightarrow> graph \<Rightarrow> string list \<Rightarrow> main_state \<Rightarrow> py_error + main_state" where
  "main_loop lower m add_transpose model_input_name tree_dict [] st = Inr st"
| "main_loop lower m add_transpose model_input_name tree_dict (key # keys) st =
     (case main_step lower m add_transpose model_input_name tree_dict key st of
        Inl e \<Rightarrow> Inl e
      | Inr st' \<Rightarrow> main_loop lower m add_transpose model_input_name tree_dict keys st')"

text \<open>
  The value info of the model input and the state before the graph is built: lines 121
  to 132 of the driver.
\<close>

definition input_value_info :: "bool \<Rightarrow> string \<Rightarrow> int list \<Rightarrow> value_info" where
  "input_value_info add_transpose model_input_name model_input_shape =
     (if add_transpose then make_tensor_value_info model_input_name (Some model_input_shape)
      else make_tensor_value_info model_input_name (tflite2onnx_shape_map model_input_shape))"

definition initial_state :: "bool \<Rightarrow> string \<Rightarrow> int list \<Rightarrow> main_state" where
  "initial_state add_transpose model_input_name model_input_shape =
     (if add_transpose then
        (let transpose_node = build_head_transpose_node
               (vi_name (input_value_info add_transpose model_input_name model_input_shape))
         in \<lparr>op_name__sub_op_name__table =
                AList.update model_input_name [model_input_name, n_name transpose_node] [],
              onnx_weight_node_list = [], output_tensor_value_info = [],
              onnx_node_list = [transpose_node], inner_node_shape_value_info = []\<rparr>)
      else
        \<lparr>op_name__sub_op_name__table =
           AList.update model_input_name
             [model_input_name,
              vi_name (input_value_info add_transpose model_input_name model_input_shape)] [],
         onnx_weight_node_list = [], output_tensor_value_info = [],
         onnx_node_list = [], inner_node_shape_value_info = []\<rparr>)"

text \<open>
  \<open>main\<close>, up to the graph handed to \<open>helper.make_graph\<close>; the model is then polished
  and saved by the target library. \<open>Inl\<close> is an exception leaving \<open>main\<close>, before
  \<open>onnx.save\<close> is reached.
\<close>

definition main :: "lowering \<Rightarrow> tflite_model \<Rightarrow> bool \<Rightarrow> py_error + onnx_graph" where
  "main lower m add_transpose =
     (case input_details m of
        [] \<Rightarrow> Inl IndexError
      | d0 # ds \<Rightarrow>
          (let model_input_name = t_name d0;
               model_input_shape = t_shape d0;
               input_tensor_value_info =
                 input_value_info add_transpose model_input_name model_input_shape;
               st0 = initial_state add_transpose model_input_name model_input_shape
           in case Tree m False of
                Inl e \<Rightarrow> Inl e
              | Inr (tree_dict, ws) \<Rightarrow>
                  (case main_loop lower m add_transpose model_input_name tree_dict
                          (map fst tree_dict) st0 of
                     Inl e \<Rightarrow> Inl e
                   | Inr st \<Rightarrow>
                       Inr \<lparr>g_nodes = onnx_node_list st,
                            g_inputs = make_kneron_valid_onnx_input input_tensor_value_info
                                         (onnx_weight_node_list st),
                            g_outputs = output_tensor_value_info st,
                            g_initializer = onnx_weight_node_list st,
                            g_value_info = inner_node_shape_value_info st\<rparr>)))"

text \<open>
  The lowering routines of aact\_layers.py that emit no floating-point attribute and no
  constant: \<open>Relu\<close>, \<open>Softmax\<close> and \<open>LOGISTIC\<close>, each after \<open>Layer.init_generate\<close>.
  For every other class this example routine fails; it is used on models of these three
  kinds only.
\<close>

definition aact_generate :: lowering where
  "aact_generate m l previous_onnx_node_names table =
     (case op l of
        None \<Rightarrow> Inl LoweringError
      | Some op_info \<Rightarrow>
          (case tensor_details m (op_output0 op_info) of
             None \<Rightarrow> Inl TensorDetailsError
           | Some node_output_detail \<Rightarrow>
               (case op_inputs op_info of
                  [] \<Rightarrow> Inl LoweringError
                | i0 # is \<Rightarrow>
                    (case tensor_details m i0 of
                       None \<Rightarrow> Inl TensorDetailsError
                     | Some node_input_detail \<Rightarrow>
                         (let onnx_node_name = t_name node_output_detail in
                          if layer_class l = Relu then
                            Inr ([\<lparr>n_op_type = ''Relu'', n_name = onnx_node_name,
                                    n_inputs = previous_onnx_node_names,
                                    n_outputs = [onnx_node_name], n_attrs = []\<rparr>],
                                 [make_tensor_value_info onnx_node_name
                                    (tflite2onnx_shape_map (t_shape node_output_detail))],
                                 [])
                          else if layer_class l = Softmax then
                            Inr ([\<lparr>n_op_type = ''Softmax'', n_name = onnx_node_name,
                                    n_inputs = previous_onnx_node_names,
                                    n_outputs = [onnx_node_name], n_attrs = []\<rparr>], [], [])
                          else if layer_class l = LOGISTIC then
                            Inr ([\<lparr>n_op_type = ''Sigmoid'', n_name = onnx_node_name,
                                    n_inputs = previous_onnx_node_names,
                                    n_outputs = [onnx_node_name], n_attrs = []\<rparr>], [], [])
                          else Inl LoweringError)))))"

text \<open>
  A node is fusable when its class hands an embedded activation to the generator and the
  generator turns that activation into a node: ReLU or ReLU6.
  \<open>unsupported_warning\<close> lists the warning expected for any other code: none for
  NONE, one for ReLU-[-1,1], tanh, sign-bit and a code outside the enumeration.
  \<open>pass_warnings\<close> lists, in the order of the keys, the warnings the generator emits
  for the nodes of a graph.
\<close>

definition fusable :: "layer \<Rightarrow> bool" where
  "fusable node =
     (\<not> keeps_base_defuse (layer_class node) \<and>
      (case op node of
         None \<Rightarrow> False
       | Some p \<Rightarrow>
           (case op_fused p of
              None \<Rightarrow> False
            | Some a \<Rightarrow> a = ActivationFunctionType_RELU \<or> a = ActivationFunctionType_RELU6)))"

definition unsupported_warning :: "int \<Rightarrow> py_warning list" where
  "unsupported_warning a =
     (if a = ActivationFunctionType_NONE then []
      else if a = ActivationFunctionType_RELU_N1_TO_1 then [NotSupport ''RELU_N1_TO_1'']
      else if a = ActivationFunctionType_TANH then [NotSupport ''TANH'']
      else if a = ActivationFunctionType_SIGN_BIT then [NotSupport ''SIGN_BIT'']
      else [NotInSpecification a])"

definition pass_warnings :: "tflite_model \<Rightarrow> graph \<Rightarrow> py_warning list" where
  "pass_warnings m nodes =
     concat (map (\<lambda>k. case map_of nodes k of
                          None \<Rightarrow> []
                        | Some node \<Rightarrow> fst (defuse_activation_function m node))
                 (map fst nodes))"

section \<open>Concrete source models\<close>

definition tensor :: "int \<Rightarrow> string \<Rightarrow> int list \<Rightarrow> tensor_detail" where
  "tensor i n sh = \<lparr>t_index = i, t_name = n, t_shape = sh\<rparr>"

text \<open>
  A convolution (input tensor 0, weight tensor 1) with an embedded activation of code
  \<open>a\<close>, followed by a softmax that is the model's output.
\<close>

definition conv_softmax_model :: "int \<Rightarrow> tflite_model" where
  "conv_softmax_model a =
     \<lparr>operators =
        [\<lparr>op_inputs = [0, 1], op_output0 = 2, op_code = BuiltinOperator_CONV_2D,
          op_fused = Some a\<rparr>,
         \<lparr>op_inputs = [2], op_output0 = 3, op_code = BuiltinOperator_SOFTMAX,
          op_fused = None\<rparr>],
      tensor_details = map_of
        [(0, tensor 0 ''x'' [1, 7, 7, 3]), (1, tensor 1 ''w'' [8, 3, 3, 3]),
         (2, tensor 2 ''conv'' [1, 5, 5, 8]), (3, tensor 3 ''out'' [1, 5, 5, 8])],
      input_details = [tensor 0 ''x'' [1, 7, 7, 3]],
      output_details = [tensor 3 ''out'' [1, 5, 5, 8]]\<rparr>"

text \<open>
  A PReLU whose slope tensor 1 carries the same name as its output tensor 2.
\<close>

definition shared_name_model :: tflite_model where
  "shared_name_model =
     \<lparr>operators =
        [\<lparr>op_inputs = [0, 1], op_output0 = 2, op_code = BuiltinOperator_PRELU,
          op_fused = None\<rparr>],
      tensor_details = map_of
        [(0, tensor 0 ''x'' [1, 4, 4, 3]), (1, tensor 1 ''t'' [1, 1, 3]),
         (2, tensor 2 ''t'' [1, 4, 4, 3])],
      input_details = [tensor 0 ''x'' [1, 4, 4, 3]],
      output_details = [tensor 2 ''t'' [1, 4, 4, 3]]\<rparr>"

text \<open>A ReLU followed by a multiplication of its result with itself (a square).\<close>

definition square_model :: tflite_model where
  "square_model =
     \<lparr>operators =
        [\<lparr>op_inputs = [0], op_output0 = 1, op_code = BuiltinOperator_RELU,
          op_fused = None\<rparr>,
         \<lparr>op_inputs = [1, 1], op_output0 = 2, op_code = BuiltinOperator_MUL,
          op_fused = Some ActivationFunctionType_NONE\<rparr>],
      tensor_details = map_of
        [(0, tensor 0 ''x'' [1, 4, 4, 3]), (1, tensor 1 ''a'' [1, 4, 4, 3]),
         (2, tensor 2 ''b'' [1, 4, 4, 3])],
      input_details = [tensor 0 ''x'' [1, 4, 4, 3]],
      output_details = [tensor 2 ''b'' [1, 4, 4, 3]]\<rparr>"

text \<open>A ReLU on the model input followed by a softmax that is the model's output.\<close>

definition relu_softmax_model :: tflite_model where
  "relu_softmax_model =
     \<lparr>operators =
        [\<lparr>op_inputs = [0], op_output0 = 1, op_code = BuiltinOperator_RELU,
          op_fused = None\<rparr>,
         \<lparr>op_inputs = [1], op_output0 = 2, op_code = BuiltinOperator_SOFTMAX,
          op_fused = None\<rparr>],
      tensor_details = map_of
        [(0, tensor 0 ''x'' [1, 7, 7, 3]), (1, tensor 1 ''r'' [1, 7, 7, 3]),
         (2, tensor 2 ''s'' [1, 7, 7, 3])],
      input_details = [tensor 0 ''x'' [1, 7, 7, 3]],
      output_details = [tensor 2 ''s'' [1, 7, 7, 3]]\<rparr>"

text \<open>
  The graph \<open>Tree.__parse_graph\<close> builds for the convolution with an embedded ReLU,
  and the names of its tensors.
\<close>

definition conv_softmax_names :: "int \<Rightarrow> string" where
  "conv_softmax_names i =
     (if i = 0 then ''x'' else if i = 1 then ''w'' else if i = 2 then ''conv'' else ''out'')"

definition conv_softmax_nodes :: graph where
  "conv_softmax_nodes =
     (case parse_graph (conv_softmax_model 1) of Inr g \<Rightarrow> g | Inl e \<Rightarrow> [])"

text \<open>
  The kinds \<open>Tree.__node_generator\<close> dispatches on, in the order of its branches, and
  the layers of the two classes the de-fusion pass synthesizes.
\<close>

definition recognized_kinds :: "int list" where
  "recognized_kinds =
     [BuiltinOperator_CONV_2D, BuiltinOperator_DEPTHWISE_CONV_2D, BuiltinOperator_SOFTMAX,
      BuiltinOperator_RELU, BuiltinOperator_RELU6, BuiltinOperator_PRELU,
      BuiltinOperator_LOGISTIC, BuiltinOperator_FULLY_CONNECTED, BuiltinOperator_RESHAPE,
      BuiltinOperator_PAD, BuiltinOperator_ADD, BuiltinOperator_MUL,
      BuiltinOperator_CONCATENATION, BuiltinOperator_MEAN, BuiltinOperator_MAX_POOL_2D,
      BuiltinOperator_AVERAGE_POOL_2D, BuiltinOperator_SQUEEZE,
      BuiltinOperator_RESIZE_NEAREST_NEIGHBOR, BuiltinOperator_RESIZE_BILINEAR,
      BuiltinOperator_L2_NORMALIZATION, BuiltinOperator_TRANSPOSE_CONV]"

definition synthesized :: "layer \<Rightarrow> bool" where
  "synthesized l = (layer_class l = ReluDefused \<or> layer_class l = Relu6Defused)"

text \<open>A ReLU followed by an operator of kind 28 (TANH), which has no branch.\<close>

definition unknown_op_model :: tflite_model where
  "unknown_op_model =
     \<lparr>operators =
        [\<lparr>op_inputs = [0], op_output0 = 1, op_code = BuiltinOperator_RELU,
          op_fused = None\<rparr>,
         \<lparr>op_inputs = [1], op_output0 = 2, op_code = 28,
          op_fused = None\<rparr>],
      tensor_details = map_of
        [(0, tensor 0 ''x'' [1, 7, 7, 3]), (1, tensor 1 ''r'' [1, 7, 7, 3]),
         (2, tensor 2 ''t'' [1, 7, 7, 3])],
      input_details = [tensor 0 ''x'' [1, 7, 7, 3]],
      output_details = [tensor 2 ''t'' [1, 7, 7, 3]]\<rparr>"

text \<open>A property of every node of a graph.\<close>

definition all_nodes :: "(layer \<Rightarrow> bool) \<Rightarrow> graph \<Rightarrow> bool" where
  "all_nodes P g = (\<forall>kv\<in>set g. P (snd kv))"

text \<open>The graph the driver builds for the ReLU and softmax model.\<close>

definition relu_softmax_nodes :: graph where
  "relu_softmax_nodes =
     (case Tree relu_softmax_model False of Inr gw \<Rightarrow> fst gw | Inl e \<Rightarrow> [])"

text \<open>
  A node that a lowering routine returned on some call, possibly with its output list
  replaced by the single name \<open>out_\<close> followed by the node's name; and output
  annotations whose shapes are the mapped shapes of declared outputs of the model.
\<close>

definition lowered_node :: "lowering \<Rightarrow> tflite_model \<Rightarrow> onnx_node \<Rightarrow> bool" where
  "lowered_node lower m n =
     (\<exists>l prevs table ns vs ws n0.
        lower m l prevs table = Inr (ns, vs, ws) \<and> n0 \<in> set ns \<and>
        (n = n0 \<or> n = n0\<lparr>n_outputs := [''out_'' @ n_name n0]\<rparr>))"

definition channel_first_outputs :: "tflite_model \<Rightarrow> value_info list \<Rightarrow> bool" where
  "channel_first_outputs m vs =
     (\<forall>v\<in>set vs. \<exists>d\<in>set (output_details m).
        vi_shape v = tflite2onnx_shape_map (t_shape d))"

text \<open>The graph the driver assembles for the ReLU and softmax model.\<close>

definition relu_softmax_graph :: "bool \<Rightarrow> onnx_graph" where
  "relu_softmax_graph add_transpose =
     (case main aact_generate relu_softmax_model add_transpose of
        Inr G \<Rightarrow> G
      | Inl e \<Rightarrow> \<lparr>g_nodes = [], g_inputs = [], g_outputs = [], g_initializer = [],
                   g_value_info = []\<rparr>)"



text \<open>
  One rewiring of an input-name list by the de-fusion pass: the first occurrence of the
  split node's name is removed and the name of the synthesized node is appended.
\<close>

definition rewire :: "string \<Rightarrow> string \<Rightarrow> string list \<Rightarrow> string list" where
  "rewire remove_name add_name xs = remove1 remove_name xs @ [add_name]"












text \<open>
  A convolution with filter and bias (input tensor 0, filter tensor 1, bias tensor 2) and
  an embedded activation of code \<open>a\<close>, followed by a softmax that is the model's
  output; and the graph the builder makes of it, without and with de-fusion.
\<close>

definition fused_conv_model :: "int \<Rightarrow> tflite_model" where
  "fused_conv_model a =
     \<lparr>operators =
        [\<lparr>op_inputs = [0, 1, 2], op_output0 = 3, op_code = BuiltinOperator_CONV_2D,
          op_fused = Some a\<rparr>,
         \<lparr>op_inputs = [3], op_output0 = 4, op_code = BuiltinOperator_SOFTMAX,
          op_fused = None\<rparr>],
      tensor_details = map_of
        [(0, tensor 0 ''x'' [1, 7, 7, 3]), (1, tensor 1 ''w'' [8, 3, 3, 3]),
         (2, tensor 2 ''bias'' [8]), (3, tensor 3 ''conv'' [1, 5, 5, 8]),
         (4, tensor 4 ''out'' [1, 5, 5, 8])],
      input_details = [tensor 0 ''x'' [1, 7, 7, 3]],
      output_details = [tensor 4 ''out'' [1, 5, 5, 8]]\<rparr>"

definition tree_graph :: "tflite_model \<Rightarrow> bool \<Rightarrow> graph" where
  "tree_graph m defuse = (case Tree m defuse of Inr gw \<Rightarrow> fst gw | Inl e \<Rightarrow> [])"





text \<open>Two layers of the same class, operator and operator kind.\<close>

definition same_operator :: "layer \<Rightarrow> layer \<Rightarrow> bool" where
  "same_operator a b =
     (layer_class a = layer_class b \<and> op a = op b \<and> op_type a = op_type b)"

text \<open>The graph built, without de-fusion, for the convolution with an embedded tanh.\<close>

definition fused_conv_tanh_nodes :: graph where
  "fused_conv_tanh_nodes = tree_graph (fused_conv_model ActivationFunctionType_TANH) False"

text \<open>
  An example lowering routine that emits, for a layer of any class, one node named after
  the layer; and the routine that does so for every layer but the synthesized ones, on
  which it fails.
\<close>

definition single_node_generate :: lowering where
  "single_node_generate m l previous_onnx_node_names table =
     Inr ([\<lparr>n_op_type = ''Layer'', n_name = node_name l,
             n_inputs = previous_onnx_node_names, n_outputs = [node_name l],
             n_attrs = []\<rparr>], [], [])"

definition single_node_unless_synthesized :: lowering where
  "single_node_unless_synthesized m l previous_onnx_node_names table =
     (if synthesized l then Inl LoweringError
      else single_node_generate m l previous_onnx_node_names table)"

text \<open>The graph built, without de-fusion, for the convolution with an embedded ReLU.\<close>

definition fused_conv_relu_nodes :: graph where
  "fused_conv_relu_nodes = tree_graph (fused_conv_model ActivationFunctionType_RELU) False"

text \<open>
  A key of the graph is a declared output when \<open>get_output_node_info_by_name_if_exist\<close>
  finds an output detail under it; its mapped shape is what \<open>tflite2onnx_shape_map\<close>
  gives for the shape of that detail.
\<close>

definition declared_output :: "tflite_model \<Rightarrow> string \<Rightarrow> bool" where
  "declared_output m key = (get_output_node_info_by_name_if_exist key m \<noteq> None)"

definition mapped_output_shape :: "tflite_model \<Rightarrow> string \<Rightarrow> int list option" where
  "mapped_output_shape m key =
     (case get_output_node_info_by_name_if_exist key m of
        None \<Rightarrow> None
      | Some output_node_info \<Rightarrow> tflite2onnx_shape_map (t_shape output_node_info))"

text \<open>
  A ReLU on the model input followed by a reshape to rank 3; both results are declared
  outputs, the reshaped one first. And the graph the driver assembles for it, with
  boundary conversion disabled.
\<close>

definition relu_reshape_model :: tflite_model where
  "relu_reshape_model =
     \<lparr>operators =
        [\<lparr>op_inputs = [0], op_output0 = 1, op_code = BuiltinOperator_RELU,
          op_fused = None\<rparr>,
         \<lparr>op_inputs = [1, 2], op_output0 = 3, op_code = BuiltinOperator_RESHAPE,
          op_fused = None\<rparr>],
      tensor_details = map_of
        [(0, tensor 0 ''x'' [1, 7, 7, 3]), (1, tensor 1 ''r'' [1, 7, 7, 3]),
         (2, tensor 2 ''shape'' [3]), (3, tensor 3 ''q'' [1, 49, 3])],
      input_details = [tensor 0 ''x'' [1, 7, 7, 3]],
      output_details = [tensor 3 ''q'' [1, 49, 3], tensor 1 ''r'' [1, 7, 7, 3]]\<rparr>"

definition relu_reshape_graph :: onnx_graph where
  "relu_reshape_graph =
     (case main single_node_generate relu_reshape_model False of
        Inr G \<Rightarrow> G
      | Inl e \<Rightarrow> \<lparr>g_nodes = [], g_inputs = [], g_outputs = [], g_initializer = [],
                   g_value_info = []\<rparr>)"

section \<open>Padding calculator and layout mapper\<close>

lemma same_pad_need:
  assumes "fi < length feat" "d < length kern" "d < length strides" "strides ! d \<noteq> 0"
  shows "same_pad feat fi kern strides d = Inr (spec_need (feat ! fi) (kern ! d) (strides ! d))"
  using assms by (simp add: same_pad_def py_index_def py_mod_def spec_need_def)

text \<open>
  C5 (as amended). For the feature map \<open>[1,7,7,c]\<close>, kernel \<open>[3,3]\<close>, strides \<open>[2,2]\<close>
  and mode SAME, \<open>getPadding\<close> returns \<open>[1,1,1,1]\<close> (top, left, bottom, right): each
  spatial dimension needs 2, split 1 and 1. In general, on a feature map of rank at least 3
  with two kernel sizes and two non-zero strides, SAME mode returns
  \<open>need div 2\<close> leading and \<open>need - need div 2\<close> trailing on each spatial dimension,
  with \<open>need\<close> the specification's formula.
\<close>

theorem getPadding_same_7_3_2:
  "getPadding [1, 7, 7, c] [3, 3] [2, 2] ''SAME'' = Inr (Some [1, 1, 1, 1]) \<and>
   (3 \<le> length feat \<and> 2 \<le> length kern \<and> 2 \<le> length strides \<and>
    strides ! 0 \<noteq> 0 \<and> strides ! 1 \<noteq> 0 \<longrightarrow>
    getPadding feat kern strides ''SAME'' =
      Inr (Some [spec_need (feat ! 1) (kern ! 0) (strides ! 0) div 2,
                 spec_need (feat ! 2) (kern ! 1) (strides ! 1) div 2,
                 spec_need (feat ! 1) (kern ! 0) (strides ! 0)
                   - spec_need (feat ! 1) (kern ! 0) (strides ! 0) div 2,
                 spec_need (feat ! 2) (kern ! 1) (strides ! 1)
                   - spec_need (feat ! 2) (kern ! 1) (strides ! 1) div 2]))"
proof (intro conjI impI)
  show "getPadding [1, 7, 7, c] [3, 3] [2, 2] ''SAME'' = Inr (Some [1, 1, 1, 1])"
    by (simp add: getPadding_def same_pad_def py_index_def py_mod_def)
next
  assume h: "3 \<le> length feat \<and> 2 \<le> length kern \<and> 2 \<le> length strides \<and>
    strides ! 0 \<noteq> 0 \<and> strides ! 1 \<noteq> 0"
  then have a: "same_pad feat 1 kern strides 0 =
      Inr (spec_need (feat ! 1) (kern ! 0) (strides ! 0))"
    by (intro same_pad_need) auto
  from h have b: "same_pad feat 2 kern strides 1 =
      Inr (spec_need (feat ! 2) (kern ! 1) (strides ! 1))"
    by (intro same_pad_need) auto
  show "getPadding feat kern strides ''SAME'' =
      Inr (Some [spec_need (feat ! 1) (kern ! 0) (strides ! 0) div 2,
                 spec_need (feat ! 2) (kern ! 1) (strides ! 1) div 2,
                 spec_need (feat ! 1) (kern ! 0) (strides ! 0)
                   - spec_need (feat ! 1) (kern ! 0) (strides ! 0) div 2,
                 spec_need (feat ! 2) (kern ! 1) (strides ! 1)
                   - spec_need (feat ! 2) (kern ! 1) (strides ! 1) div 2])"
    unfolding getPadding_def a b by simp
qed

theorem getPadding_same_7_3_2_witness:
  "getPadding [1, 7, 7, 3] [3, 3] [2, 2] ''SAME'' = Inr (Some [1, 1, 1, 1]) \<and>
   getPadding [1, 8, 5, 3] [3, 2] [2, 3] ''SAME'' = Inr (Some [0, 0, 1, 0])"
  using getPadding_same_7_3_2 [of 3 "[1, 8, 5, 3]" "[3, 2]" "[2, 3]"]
  by (simp add: spec_need_def)

theorem getPadding_same_7_3_2_counterexample:
  "getPadding [1, 7, 7, 3] [3, 3] [2, 2] ''SAME'' \<noteq> Inr (Some [0, 1, 0, 1])"
  by (simp add: getPadding_def same_pad_def py_index_def py_mod_def)

text \<open>
  C6 (as amended). The shape mapping sends every rank-4 shape \<open>[n,h,w,c]\<close> to
  \<open>[n,c,h,w]\<close>; for every shape of another rank it returns \<open>None\<close>, not the shape.
\<close>

theorem tflite2onnx_shape_map_rank:
  "tflite2onnx_shape_map [n, h, w, c] = Some [n, c, h, w] \<and>
   (length shape_list \<noteq> 4 \<longrightarrow> tflite2onnx_shape_map shape_list = None)"
  by (simp add: tflite2onnx_shape_map_def)

theorem tflite2onnx_shape_map_rank_witness:
  "tflite2onnx_shape_map [1, 7, 7, 3] = Some [1, 3, 7, 7] \<and>
   length [1, 10 :: int] \<noteq> 4 \<and> tflite2onnx_shape_map [1, 10] = None"
  using tflite2onnx_shape_map_rank [of 1 7 7 3 "[1, 10]"] by simp

theorem tflite2onnx_shape_map_rank_counterexample:
  "tflite2onnx_shape_map [1, 10] \<noteq> Some [1, 10]"
  by (simp add: tflite2onnx_shape_map_def)

section \<open>Side-input elimination\<close>

lemma conv_softmax_nodes_value: "conv_softmax_nodes = [(''conv'',
       \<lparr>layer_class = Convolution,
          op = Some
                \<lparr>op_inputs = [0, 1], op_output0 = 2, op_code = 3,
                   op_fused = Some 1\<rparr>,
          op_type = 3, node_idx = 2, node_name = ''conv'',
          input_nodes_idx = [0, 1], input_nodes_name = [''x'', ''w''],
          output_nodes_idx = [], output_nodes_name = []\<rparr>),
      (''out'',
       \<lparr>layer_class = Softmax,
          op = Some
                \<lparr>op_inputs = [2], op_output0 = 3, op_code = 25,
                   op_fused = None\<rparr>,
          op_type = 25, node_idx = 3, node_name = ''out'',
          input_nodes_idx = [2], input_nodes_name = [''conv''],
          output_nodes_idx = [], output_nodes_name = []\<rparr>)]"
  by code_simp

lemma map_of_map_snd:
  "map_of (map (\<lambda>kv. (fst kv, f (snd kv))) xs) k = map_option f (map_of xs k)"
  by (induction xs) auto

lemma eliminate_side_input_keys: "map fst (eliminate_side_input nodes) = map fst nodes"
  by (simp add: eliminate_side_input_def Let_def comp_def)

lemma eliminate_side_input_lookup:
  "map_of (eliminate_side_input nodes) k =
     map_option (\<lambda>node. node
        \<lparr>input_nodes_idx :=
           filter (\<lambda>i. i \<in> set (map (\<lambda>kv. node_idx (snd kv)) nodes)) (input_nodes_idx node),
         input_nodes_name :=
           filter (\<lambda>n. n \<in> set (map fst nodes)) (input_nodes_name node)\<rparr>) (map_of nodes k)"
  (is "_ = map_option ?F _")
proof -
  have "eliminate_side_input nodes = map (\<lambda>kv. (fst kv, ?F (snd kv))) nodes"
    by (simp add: eliminate_side_input_def Let_def comp_def image_image)
  then show ?thesis
    using map_of_map_snd [of ?F nodes k] by simp
qed

lemma filter_mapped_names:
  assumes "inj_on tn (set idxs \<union> I)"
  shows "filter (\<lambda>n. n \<in> tn ` I) (map tn idxs) = map tn (filter (\<lambda>i. i \<in> I) idxs)"
proof -
  have "\<And>i. i \<in> set idxs \<Longrightarrow> (tn i \<in> tn ` I) = (i \<in> I)"
    using assms by (auto simp: inj_on_def)
  then show ?thesis
    by (simp add: filter_map comp_def cong: filter_cong)
qed

text \<open>
  C2 (as amended). Side-input elimination filters, for every node, the input-index list
  (an index stays when it is the index of a node of the graph) and the input-name list (a
  name stays when it is a key of the graph) independently. It has no failure path and
  compares nothing: the keys of the graph are kept and every node gets the two filtered
  lists, whatever their lengths. When the keys are the names \<open>tn\<close> gives to the node
  indices, the node's names are the names \<open>tn\<close> gives to its input indices, and
  \<open>tn\<close> is one-to-one on these indices, the surviving name list is the image of the
  surviving index list: same length, same edges, same order.
\<close>

theorem eliminate_side_input_independent_filters:
  "map fst (eliminate_side_input nodes) = map fst nodes \<and>
   (map_of nodes k = Some node \<longrightarrow>
      (\<exists>node'. map_of (eliminate_side_input nodes) k = Some node' \<and>
         input_nodes_idx node' =
           filter (\<lambda>i. i \<in> (\<lambda>kv. node_idx (snd kv)) ` set nodes) (input_nodes_idx node) \<and>
         input_nodes_name node' =
           filter (\<lambda>n. n \<in> fst ` set nodes) (input_nodes_name node) \<and>
         (fst ` set nodes = tn ` (\<lambda>kv. node_idx (snd kv)) ` set nodes \<and>
          input_nodes_name node = map tn (input_nodes_idx node) \<and>
          inj_on tn (set (input_nodes_idx node) \<union> (\<lambda>kv. node_idx (snd kv)) ` set nodes) \<longrightarrow>
            input_nodes_name node' = map tn (input_nodes_idx node'))))"
proof (intro conjI impI)
  show "map fst (eliminate_side_input nodes) = map fst nodes"
    by (rule eliminate_side_input_keys)
next
  assume n: "map_of nodes k = Some node"
  let ?I = "(\<lambda>kv. node_idx (snd kv)) ` set nodes"
  let ?node' = "node\<lparr>input_nodes_idx := filter (\<lambda>i. i \<in> ?I) (input_nodes_idx node),
                     input_nodes_name := filter (\<lambda>n. n \<in> fst ` set nodes) (input_nodes_name node)\<rparr>"
  have l: "map_of (eliminate_side_input nodes) k = Some ?node'"
    using n by (simp add: eliminate_side_input_lookup)
  have c: "input_nodes_name ?node' = map tn (input_nodes_idx ?node')"
    if h: "fst ` set nodes = tn ` ?I \<and> input_nodes_name node = map tn (input_nodes_idx node) \<and>
           inj_on tn (set (input_nodes_idx node) \<union> ?I)"
  proof -
    have "filter (\<lambda>n. n \<in> tn ` ?I) (map tn (input_nodes_idx node)) =
          map tn (filter (\<lambda>i. i \<in> ?I) (input_nodes_idx node))"
      using h by (intro filter_mapped_names) simp
    with h show ?thesis by simp
  qed
  show "\<exists>node'. map_of (eliminate_side_input nodes) k = Some node' \<and>
         input_nodes_idx node' = filter (\<lambda>i. i \<in> ?I) (input_nodes_idx node) \<and>
         input_nodes_name node' =
           filter (\<lambda>n. n \<in> fst ` set nodes) (input_nodes_name node) \<and>
         (fst ` set nodes = tn ` ?I \<and>
          input_nodes_name node = map tn (input_nodes_idx node) \<and>
          inj_on tn (set (input_nodes_idx node) \<union> ?I) \<longrightarrow>
            input_nodes_name node' = map tn (input_nodes_idx node'))"
    using l c by (intro exI [of _ ?node']) simp
qed

theorem eliminate_side_input_independent_filters_witness:
  "map_of conv_softmax_nodes ''out'' \<noteq> None \<and>
   (\<exists>node'. map_of (eliminate_side_input conv_softmax_nodes) ''out'' = Some node' \<and>
      input_nodes_idx node' = [2] \<and> input_nodes_name node' = [''conv''])
   \<and> map fst (eliminate_side_input conv_softmax_nodes) = [''conv'', ''out''] \<and>
   (\<exists>node. map_of conv_softmax_nodes ''conv'' = Some node \<and>
      input_nodes_idx node = [0, 1] \<and> input_nodes_name node = [''x'', ''w'']) \<and>
   (\<exists>node'. map_of (eliminate_side_input conv_softmax_nodes) ''conv'' = Some node' \<and>
      input_nodes_idx node' = [] \<and> input_nodes_name node' = [])"
proof -
  let ?node = "the (map_of conv_softmax_nodes ''out'')"
  have a: "map_of conv_softmax_nodes ''out'' = Some ?node"
    by (simp add: conv_softmax_nodes_value)
  have b: "fst ` set conv_softmax_nodes =
      conv_softmax_names ` (\<lambda>kv. node_idx (snd kv)) ` set conv_softmax_nodes"
    by (auto simp add: conv_softmax_nodes_value conv_softmax_names_def)
  have c: "input_nodes_name ?node = map conv_softmax_names (input_nodes_idx ?node)"
    by (simp add: conv_softmax_nodes_value conv_softmax_names_def)
  have d: "inj_on conv_softmax_names
      (set (input_nodes_idx ?node) \<union> (\<lambda>kv. node_idx (snd kv)) ` set conv_softmax_nodes)"
    by (auto simp add: conv_softmax_nodes_value conv_softmax_names_def inj_on_def split: if_splits)
  from eliminate_side_input_independent_filters
         [of conv_softmax_nodes "''out''" ?node conv_softmax_names] a b c d
  have e: "map fst (eliminate_side_input conv_softmax_nodes) = map fst conv_softmax_nodes"
    and f: "\<exists>node'. map_of (eliminate_side_input conv_softmax_nodes) ''out'' = Some node' \<and>
         input_nodes_idx node' =
           filter (\<lambda>i. i \<in> (\<lambda>kv. node_idx (snd kv)) ` set conv_softmax_nodes) (input_nodes_idx ?node) \<and>
         input_nodes_name node' = map conv_softmax_names (input_nodes_idx node')"
    by blast+
  from f obtain node' where
    g: "map_of (eliminate_side_input conv_softmax_nodes) ''out'' = Some node'"
      "input_nodes_idx node' =
           filter (\<lambda>i. i \<in> (\<lambda>kv. node_idx (snd kv)) ` set conv_softmax_nodes) (input_nodes_idx ?node)"
      "input_nodes_name node' = map conv_softmax_names (input_nodes_idx node')"
    by blast
  from g(2) have h: "input_nodes_idx node' = [2]" by (simp add: conv_softmax_nodes_value)
  with g(3) have "input_nodes_name node' = [''conv'']" by (simp add: conv_softmax_names_def)
  with g(1) h e a have first: "map_of conv_softmax_nodes ''out'' \<noteq> None \<and>
   (\<exists>node'. map_of (eliminate_side_input conv_softmax_nodes) ''out'' = Some node' \<and>
      input_nodes_idx node' = [2] \<and> input_nodes_name node' = [''conv''])
   \<and> map fst (eliminate_side_input conv_softmax_nodes) = [''conv'', ''out'']"
    by (simp add: conv_softmax_nodes_value)
  let ?conv = "the (map_of conv_softmax_nodes ''conv'')"
  have a2: "map_of conv_softmax_nodes ''conv'' = Some ?conv"
    by (simp add: conv_softmax_nodes_value)
  have v2: "input_nodes_idx ?conv = [0, 1]" "input_nodes_name ?conv = [''x'', ''w'']"
    by (simp_all add: conv_softmax_nodes_value)
  from eliminate_side_input_independent_filters
         [of conv_softmax_nodes "''conv''" ?conv conv_softmax_names] a2
  obtain conv' where
    g2: "map_of (eliminate_side_input conv_softmax_nodes) ''conv'' = Some conv'"
      "input_nodes_idx conv' =
           filter (\<lambda>i. i \<in> (\<lambda>kv. node_idx (snd kv)) ` set conv_softmax_nodes) (input_nodes_idx ?conv)"
      "input_nodes_name conv' =
           filter (\<lambda>n. n \<in> fst ` set conv_softmax_nodes) (input_nodes_name ?conv)"
    by blast
  from g2(2) have i2: "input_nodes_idx conv' = []" by (simp add: conv_softmax_nodes_value)
  from g2(3) have n2: "input_nodes_name conv' = []" by (simp add: conv_softmax_nodes_value)
  from a2 v2 have second: "\<exists>node. map_of conv_softmax_nodes ''conv'' = Some node \<and>
      input_nodes_idx node = [0, 1] \<and> input_nodes_name node = [''x'', ''w'']"
    by blast
  from g2(1) i2 n2 have third: "\<exists>node'. map_of (eliminate_side_input conv_softmax_nodes) ''conv'' = Some node' \<and>
      input_nodes_idx node' = [] \<and> input_nodes_name node' = []"
    by blast
  from first second third show ?thesis by blast
qed

theorem eliminate_side_input_counterexample:
  "Tree shared_name_model False =
     Inr ([(''t'',
            \<lparr>layer_class = PRelu,
             op = Some \<lparr>op_inputs = [0, 1], op_output0 = 2, op_code = 54, op_fused = None\<rparr>,
             op_type = 54, node_idx = 2, node_name = ''t'',
             input_nodes_idx = [], input_nodes_name = [''t''],
             output_nodes_idx = [], output_nodes_name = [''t'']\<rparr>)], [])"
  by code_simp

section \<open>Activation de-fusion: the loop body\<close>

lemma remove_each_self: "remove_each xs xs = Inr []"
  by (induction xs) (simp_all add: py_remove_def)








lemma modify_output_nodes_lookup:
  "modify_output_nodes r a outs nodes = Inr nodes' \<Longrightarrow>
   map_of nodes' k =
     map_option (\<lambda>n. n\<lparr>input_nodes_name :=
                     (rewire r a ^^ count_list outs k) (input_nodes_name n)\<rparr>) (map_of nodes k)"
proof (induction outs arbitrary: nodes)
  case Nil
  then show ?case by (cases "map_of nodes k") auto
next
  case (Cons out outs)
  from Cons.prems obtain output_node :: layer where
    o: "map_of nodes out = Some output_node"
    by (cases "map_of nodes out") auto
  let ?nodes1 = "AList.map_entry out
      (\<lambda>n. n\<lparr>input_nodes_name := rewire r a (input_nodes_name output_node)\<rparr>) nodes"
  from Cons.prems o have r: "modify_output_nodes r a outs ?nodes1 = Inr nodes'"
    by (auto simp add: py_remove_def rewire_def split: if_splits)
  have l: "map_of ?nodes1 k =
      (if k = out then Some (output_node\<lparr>input_nodes_name := rewire r a (input_nodes_name output_node)\<rparr>)
       else map_of nodes k)"
    using o by (simp add: map_of_map_entry)
  show ?case
  proof (cases "k = out")
    case True
    with Cons.IH [OF r] l o show ?thesis
      by (simp add: funpow_swap1)
  next
    case False
    with Cons.IH [OF r] l show ?thesis by simp
  qed
qed


lemma defuse_node_split:
  assumes d: "defuse_node m k (nodes, adds, ws) = Inr (nodes', adds', ws')"
    and n: "map_of nodes k = Some node"
    and f: "defuse_activation_function m node = (w, Inr (Some F0))"
  shows "adds' = adds @ [F0\<lparr>node_idx := - 1, input_nodes_name := [node_name node],
                           output_nodes_name := output_nodes_name node\<rparr>] \<and>
         modify_output_nodes (node_name node) (node_name F0) (output_nodes_name node)
           (AList.map_entry k (\<lambda>n. n\<lparr>output_nodes_name := [node_name F0]\<rparr>) nodes) = Inr nodes'"
  using d n f
  by (auto simp add: defuse_node_def Let_def remove_each_self split: sum.splits)

section \<open>Activation de-fusion: nodes without a fusable activation\<close>

lemmas activation_codes =
  ActivationFunctionType_NONE_def ActivationFunctionType_RELU_def
  ActivationFunctionType_RELU_N1_TO_1_def ActivationFunctionType_RELU6_def
  ActivationFunctionType_TANH_def ActivationFunctionType_SIGN_BIT_def

lemma generator_unsupported:
  assumes "a \<noteq> ActivationFunctionType_RELU" "a \<noteq> ActivationFunctionType_RELU6"
  shows "defused_activation_node_generator m a opr opt = (unsupported_warning a, Inr None)"
  using assms
  by (auto simp add: defused_activation_node_generator_def unsupported_warning_def activation_codes)

lemma defuse_activation_function_not_fusable:
  assumes "\<not> fusable node"
  shows "\<exists>w. defuse_activation_function m node = (w, Inr None)"
  using assms
  by (auto simp add: defuse_activation_function_def fusable_def generator_unsupported
      split: option.splits)

lemma defuse_activation_function_same_operator:
  "same_operator a b \<Longrightarrow> defuse_activation_function m a = defuse_activation_function m b"
  by (auto simp add: defuse_activation_function_def same_operator_def split: option.splits)

lemma defuse_node_same_operator:
  assumes d: "defuse_node m k (nodes, adds, ws) = Inr (nodes', adds', ws')"
  shows "\<exists>node. map_of nodes k = Some node \<and>
           ws' = ws @ fst (defuse_activation_function m node) \<and>
           (\<forall>x. map_of nodes' x = None \<longleftrightarrow> map_of nodes x = None) \<and>
           (\<forall>x y y'. map_of nodes x = Some y \<longrightarrow> map_of nodes' x = Some y' \<longrightarrow>
              same_operator y y')"
proof -
  from d obtain node :: layer where n: "map_of nodes k = Some node"
    by (cases "map_of nodes k") (auto simp add: defuse_node_def)
  obtain w r where f: "defuse_activation_function m node = (w, r)"
    by (cases "defuse_activation_function m node")
  show ?thesis
  proof (cases r)
    case (Inl e)
    with d n f show ?thesis by (simp add: defuse_node_def)
  next
    case (Inr created)
    show ?thesis
    proof (cases created)
      case None
      with Inr f d n have "nodes' = nodes" and "ws' = ws @ w"
        by (simp_all add: defuse_node_def)
      with n f show ?thesis by (auto simp add: same_operator_def)
    next
      case (Some F0)
      with Inr f have f': "defuse_activation_function m node = (w, Inr (Some F0))" by simp
      let ?nodes1 = "AList.map_entry k (\<lambda>n. n\<lparr>output_nodes_name := [node_name F0]\<rparr>) nodes"
      from defuse_node_split [OF d n f']
      have mo: "modify_output_nodes (node_name node) (node_name F0) (output_nodes_name node)
                  ?nodes1 = Inr nodes'"
        by simp
      from d n f' have w: "ws' = ws @ w"
        by (auto simp add: defuse_node_def Let_def remove_each_self split: sum.splits)
      have l: "map_of nodes' x =
          map_option (\<lambda>n. n\<lparr>input_nodes_name :=
              (rewire (node_name node) (node_name F0) ^^ count_list (output_nodes_name node) x)
                (input_nodes_name n)\<rparr>) (map_of ?nodes1 x)" for x
        using mo by (rule modify_output_nodes_lookup)
      have a: "\<forall>x. map_of nodes' x = None \<longleftrightarrow> map_of nodes x = None"
        by (auto simp add: l map_of_map_entry split: option.splits)
      have b: "\<forall>x y y'. map_of nodes x = Some y \<longrightarrow> map_of nodes' x = Some y' \<longrightarrow>
              same_operator y y'"
        by (auto simp add: l map_of_map_entry same_operator_def split: option.splits if_splits)
      from n f' w a b show ?thesis by simp
    qed
  qed
qed

lemma defuse_loop_warnings:
  assumes "defuse_loop m ks (nodes, adds, ws) = Inr (nodes', adds', ws')"
  shows "ws' = ws @ concat (map (\<lambda>k. case map_of nodes k of
                                         None \<Rightarrow> []
                                       | Some node \<Rightarrow> fst (defuse_activation_function m node)) ks)"
  using assms
proof (induction ks arbitrary: nodes adds ws)
  case Nil
  then show ?case by simp
next
  case (Cons k ks)
  from Cons.prems obtain nodes1 adds1 ws1 where
    d: "defuse_node m k (nodes, adds, ws) = Inr (nodes1, adds1, ws1)"
    and r: "defuse_loop m ks (nodes1, adds1, ws1) = Inr (nodes', adds', ws')"
    by (auto split: sum.splits)
  from defuse_node_same_operator [OF d] obtain node where
    n: "map_of nodes k = Some node"
    and w: "ws1 = ws @ fst (defuse_activation_function m node)"
    and none: "\<forall>x. map_of nodes1 x = None \<longleftrightarrow> map_of nodes x = None"
    and same: "\<forall>x y y'. map_of nodes x = Some y \<longrightarrow> map_of nodes1 x = Some y' \<longrightarrow>
              same_operator y y'"
    by blast
  have eq: "(case map_of nodes1 x of None \<Rightarrow> []
            | Some node \<Rightarrow> fst (defuse_activation_function m node)) =
           (case map_of nodes x of None \<Rightarrow> []
            | Some node \<Rightarrow> fst (defuse_activation_function m node))" for x
  proof (cases "map_of nodes x")
    case None
    with none have "map_of nodes1 x = None" by simp
    with None show ?thesis by simp
  next
    case (Some y)
    with none obtain y' where y': "map_of nodes1 x = Some y'"
      by (cases "map_of nodes1 x") auto
    with same Some have "same_operator y y'" by blast
    then have "defuse_activation_function m y = defuse_activation_function m y'"
      by (rule defuse_activation_function_same_operator)
    with Some y' show ?thesis by simp
  qed
  from Cons.IH [OF r] w n show ?case by (simp add: eq)
qed

lemma defused_warnings:
  assumes "defused m True nodes = Inr (g', ws')"
  shows "ws' = pass_warnings m nodes"
proof -
  from assms obtain nodes' adds' where
    "defuse_loop m (map fst nodes) (nodes, [], []) = Inr (nodes', adds', ws')"
    by (auto simp add: defused_def split: sum.splits)
  then show ?thesis
    using defuse_loop_warnings by (fastforce simp add: pass_warnings_def)
qed

lemma defuse_node_not_fusable:
  assumes "map_of nodes k = Some node" "\<not> fusable node"
  shows "\<exists>w. defuse_node m k (nodes, add_list, ws) = Inr (nodes, add_list, ws @ w)"
proof -
  from assms(2) obtain w where "defuse_activation_function m node = (w, Inr None)"
    using defuse_activation_function_not_fusable by blast
  with assms(1) show ?thesis by (simp add: defuse_node_def)
qed

lemma defuse_loop_not_fusable:
  assumes "set ks \<subseteq> fst ` set nodes" "\<forall>kv\<in>set nodes. \<not> fusable (snd kv)"
  shows "\<exists>ws'. defuse_loop m ks (nodes, add_list, ws) = Inr (nodes, add_list, ws')"
  using assms
proof (induction ks arbitrary: ws)
  case Nil
  then show ?case by simp
next
  case (Cons k ks)
  from Cons.prems(1) obtain node where n: "map_of nodes k = Some node"
    by (auto dest: weak_map_of_SomeI)
  then have "(k, node) \<in> set nodes" by (rule map_of_SomeD)
  with Cons.prems(2) have "\<not> fusable node" by auto
  with n obtain w where "defuse_node m k (nodes, add_list, ws) = Inr (nodes, add_list, ws @ w)"
    using defuse_node_not_fusable by blast
  moreover from Cons obtain ws' where "defuse_loop m ks (nodes, add_list, ws @ w) = Inr (nodes, add_list, ws')"
    by (meson list.set_intros(2) subset_iff)
  ultimately show ?case by simp
qed

lemma defused_not_fusable:
  assumes "\<forall>kv\<in>set nodes. \<not> fusable (snd kv)"
  shows "defused m True nodes = Inr (nodes, pass_warnings m nodes)"
proof -
  obtain ws' where "defuse_loop m (map fst nodes) (nodes, [], []) = Inr (nodes, [], ws')"
    using defuse_loop_not_fusable [of "map fst nodes" nodes m "[]" "[]"] assms by auto
  then have d: "defused m True nodes = Inr (nodes, ws')"
    by (simp add: defused_def add_fused_nodes_def)
  then have "ws' = pass_warnings m nodes" by (rule defused_warnings)
  with d show ?thesis by simp
qed

lemma pass_warnings_segment:
  assumes "map_of nodes k = Some node"
  shows "\<exists>pre post. pass_warnings m nodes =
           pre @ fst (defuse_activation_function m node) @ post"
proof -
  from assms have "k \<in> set (map fst nodes)" by (force dest: map_of_SomeD)
  then obtain xs ys where "map fst nodes = xs @ k # ys" by (auto dest: split_list)
  with assms show ?thesis
    unfolding pass_warnings_def by (intro exI) simp
qed

text \<open>
  C8. For a node of a class that hands its embedded activation to the generator, with a
  code that is neither ReLU nor ReLU6 (NONE, tanh, sign-bit, ReLU-[-1,1] or a code outside
  the enumeration), the generator creates no node and emits the warning of the unsupported
  kinds (none for NONE); the loop body of the de-fusion pass for that node leaves the graph
  and the list of nodes to add unchanged and emits exactly that warning, and so does a
  second run of it; the warning is part of the warnings of the whole pass. Whenever the
  pass completes, on any graph, the warnings it emitted are those the generator emits for
  the nodes, in the order of the keys. When no node of the graph is fusable, the whole
  pass returns the graph it was given together with these warnings, and so does the pass
  applied to its own result.
\<close>

theorem defuse_unsupported_is_noop:
  "(map_of nodes k = Some node \<and> \<not> keeps_base_defuse (layer_class node) \<and>
    op node = Some p \<and> op_fused p = Some a \<and>
    a \<noteq> ActivationFunctionType_RELU \<and> a \<noteq> ActivationFunctionType_RELU6 \<longrightarrow>
      defuse_activation_function m node = (unsupported_warning a, Inr None) \<and>
      defuse_node m k (nodes, add_list, ws) = Inr (nodes, add_list, ws @ unsupported_warning a) \<and>
      defuse_node m k (nodes, add_list, ws @ unsupported_warning a) =
        Inr (nodes, add_list, ws @ unsupported_warning a @ unsupported_warning a) \<and>
      (\<exists>pre post. pass_warnings m nodes = pre @ unsupported_warning a @ post)) \<and>
   (defused m True nodes = Inr (g', ws') \<longrightarrow> ws' = pass_warnings m nodes) \<and>
   ((\<forall>kv\<in>set nodes. \<not> fusable (snd kv)) \<longrightarrow>
      defused m True nodes = Inr (nodes, pass_warnings m nodes) \<and>
      (case defused m True nodes of Inl e \<Rightarrow> Inl e | Inr gw \<Rightarrow> defused m True (fst gw)) =
        Inr (nodes, pass_warnings m nodes))"
proof (intro conjI impI)
  assume h: "map_of nodes k = Some node \<and> \<not> keeps_base_defuse (layer_class node) \<and>
    op node = Some p \<and> op_fused p = Some a \<and>
    a \<noteq> ActivationFunctionType_RELU \<and> a \<noteq> ActivationFunctionType_RELU6"
  then show g: "defuse_activation_function m node = (unsupported_warning a, Inr None)"
    by (simp add: defuse_activation_function_def generator_unsupported)
  from h g show "defuse_node m k (nodes, add_list, ws) = Inr (nodes, add_list, ws @ unsupported_warning a)"
    by (simp add: defuse_node_def)
  from h g show "defuse_node m k (nodes, add_list, ws @ unsupported_warning a) =
        Inr (nodes, add_list, ws @ unsupported_warning a @ unsupported_warning a)"
    by (simp add: defuse_node_def)
  from h have "map_of nodes k = Some node" by simp
  from pass_warnings_segment [OF this, of m] g
  show "\<exists>pre post. pass_warnings m nodes = pre @ unsupported_warning a @ post" by simp
next
  assume "defused m True nodes = Inr (g', ws')"
  then show "ws' = pass_warnings m nodes" by (rule defused_warnings)
next
  assume a: "\<forall>kv\<in>set nodes. \<not> fusable (snd kv)"
  then show d: "defused m True nodes = Inr (nodes, pass_warnings m nodes)"
    by (rule defused_not_fusable)
  then show "(case defused m True nodes of Inl e \<Rightarrow> Inl e | Inr gw \<Rightarrow> defused m True (fst gw)) =
        Inr (nodes, pass_warnings m nodes)"
    by simp
qed

lemma fused_conv_tanh_nodes_value:
  "fused_conv_tanh_nodes =
     [(''conv'',
       \<lparr>layer_class = Convolution,
        op = Some \<lparr>op_inputs = [0, 1, 2], op_output0 = 3, op_code = 3, op_fused = Some 4\<rparr>,
        op_type = 3, node_idx = 3, node_name = ''conv'',
        input_nodes_idx = [], input_nodes_name = [],
        output_nodes_idx = [4], output_nodes_name = [''out'']\<rparr>),
      (''out'',
       \<lparr>layer_class = Softmax,
        op = Some \<lparr>op_inputs = [3], op_output0 = 4, op_code = 25, op_fused = None\<rparr>,
        op_type = 25, node_idx = 4, node_name = ''out'',
        input_nodes_idx = [3], input_nodes_name = [''conv''],
        output_nodes_idx = [], output_nodes_name = []\<rparr>)]"
  by code_simp

lemma fused_conv_tanh_warnings:
  "pass_warnings (fused_conv_model 4) fused_conv_tanh_nodes = [NotSupport ''TANH'']"
  by code_simp

theorem defuse_unsupported_is_noop_witness:
  "map_of fused_conv_tanh_nodes ''conv'' \<noteq> None \<and>
   defuse_node (fused_conv_model 4) ''conv'' (fused_conv_tanh_nodes, [], []) =
     Inr (fused_conv_tanh_nodes, [], [NotSupport ''TANH'']) \<and>
   defused (fused_conv_model 4) True fused_conv_tanh_nodes =
     Inr (fused_conv_tanh_nodes, [NotSupport ''TANH'']) \<and>
   (case defused (fused_conv_model 4) True fused_conv_tanh_nodes of
      Inl e \<Rightarrow> Inl e
    | Inr gw \<Rightarrow> defused (fused_conv_model 4) True (fst gw)) =
     Inr (fused_conv_tanh_nodes, [NotSupport ''TANH''])"
proof -
  let ?node = "the (map_of fused_conv_tanh_nodes ''conv'')"
  let ?p = "\<lparr>op_inputs = [0, 1, 2], op_output0 = 3, op_code = 3, op_fused = Some 4\<rparr>"
  have a: "map_of fused_conv_tanh_nodes ''conv'' = Some ?node \<and>
      \<not> keeps_base_defuse (layer_class ?node) \<and> op ?node = Some ?p \<and>
      op_fused ?p = Some 4 \<and> (4::int) \<noteq> ActivationFunctionType_RELU \<and>
      (4::int) \<noteq> ActivationFunctionType_RELU6"
    by (simp add: fused_conv_tanh_nodes_value activation_codes keeps_base_defuse_def)
  have b: "\<forall>kv\<in>set fused_conv_tanh_nodes. \<not> fusable (snd kv)"
    by (simp add: fused_conv_tanh_nodes_value fusable_def activation_codes keeps_base_defuse_def)
  have c: "unsupported_warning 4 = [NotSupport ''TANH'']"
    by (simp add: unsupported_warning_def activation_codes)
  note t = defuse_unsupported_is_noop
         [of fused_conv_tanh_nodes "''conv''" ?node ?p 4 "fused_conv_model 4" "[]" "[]"]
  from t have t1: "map_of fused_conv_tanh_nodes ''conv'' = Some ?node \<and>
      \<not> keeps_base_defuse (layer_class ?node) \<and> op ?node = Some ?p \<and>
      op_fused ?p = Some 4 \<and> (4::int) \<noteq> ActivationFunctionType_RELU \<and>
      (4::int) \<noteq> ActivationFunctionType_RELU6 \<longrightarrow>
      defuse_node (fused_conv_model 4) ''conv'' (fused_conv_tanh_nodes, [], []) =
        Inr (fused_conv_tanh_nodes, [], [] @ unsupported_warning 4)"
    by blast
  from t have t3: "(\<forall>kv\<in>set fused_conv_tanh_nodes. \<not> fusable (snd kv)) \<longrightarrow>
      defused (fused_conv_model 4) True fused_conv_tanh_nodes =
        Inr (fused_conv_tanh_nodes, pass_warnings (fused_conv_model 4) fused_conv_tanh_nodes) \<and>
      (case defused (fused_conv_model 4) True fused_conv_tanh_nodes of
         Inl e \<Rightarrow> Inl e
       | Inr gw \<Rightarrow> defused (fused_conv_model 4) True (fst gw)) =
        Inr (fused_conv_tanh_nodes, pass_warnings (fused_conv_model 4) fused_conv_tanh_nodes)"
    by blast
  from t1 a c have r1: "defuse_node (fused_conv_model 4) ''conv'' (fused_conv_tanh_nodes, [], []) =
        Inr (fused_conv_tanh_nodes, [], [NotSupport ''TANH''])"
    by simp
  from t3 b have r3: "defused (fused_conv_model 4) True fused_conv_tanh_nodes =
        Inr (fused_conv_tanh_nodes, pass_warnings (fused_conv_model 4) fused_conv_tanh_nodes)"
    and r4: "(case defused (fused_conv_model 4) True fused_conv_tanh_nodes of
         Inl e \<Rightarrow> Inl e
       | Inr gw \<Rightarrow> defused (fused_conv_model 4) True (fst gw)) =
        Inr (fused_conv_tanh_nodes, pass_warnings (fused_conv_model 4) fused_conv_tanh_nodes)"
    by blast+
  have r0: "map_of fused_conv_tanh_nodes ''conv'' \<noteq> None"
    by (simp add: fused_conv_tanh_nodes_value)
  show ?thesis
    using r0 r1 r3 r4 unfolding fused_conv_tanh_warnings by (intro conjI)
qed

section \<open>Output-edge inference\<close>

text \<open>
  C3, at the square model: the multiplication \<open>b\<close> lists the ReLU \<open>a\<close> twice among
  its inputs. After output-edge inference the name form of \<open>a\<close> records the edge to
  \<open>b\<close> once, and the index form records it twice.
\<close>

theorem init_outputs_index_edge_recorded_twice:
  "Tree square_model False =
     Inr ([(''a'',
            \<lparr>layer_class = Relu,
             op = Some \<lparr>op_inputs = [0], op_output0 = 1, op_code = 19, op_fused = None\<rparr>,
             op_type = 19, node_idx = 1, node_name = ''a'',
             input_nodes_idx = [], input_nodes_name = [],
             output_nodes_idx = [2, 2], output_nodes_name = [''b'']\<rparr>),
           (''b'',
            \<lparr>layer_class = Mul,
             op = Some \<lparr>op_inputs = [1, 1], op_output0 = 2, op_code = 18, op_fused = Some 0\<rparr>,
             op_type = 18, node_idx = 2, node_name = ''b'',
             input_nodes_idx = [1, 1], input_nodes_name = [''a'', ''a''],
             output_nodes_idx = [], output_nodes_name = []\<rparr>)], [])"
  by code_simp

section \<open>Unknown operator kinds\<close>

lemma node_generator_unknown:
  "opt \<notin> set recognized_kinds \<Longrightarrow> node_generator m p opt = Inl (UnknownOperator opt)"
  by (simp add: recognized_kinds_def node_generator_def)

lemma Layer_init_class:
  "Layer_init cls m opr opt = Inr l \<Longrightarrow> layer_class l = cls"
  by (auto simp add: Layer_init_def split: option.splits)

lemma node_generator_not_synthesized:
  "node_generator m p opt = Inr l \<Longrightarrow> \<not> synthesized l"
  by (auto simp add: node_generator_def synthesized_def split: if_splits dest!: Layer_init_class)

lemma parse_graph_loop_unknown:
  assumes "\<exists>pt\<in>set ops. snd pt \<notin> set recognized_kinds"
  shows "\<exists>e. parse_graph_loop m ops nodes = Inl e"
  using assms
proof (induction ops arbitrary: nodes)
  case Nil
  then show ?case by simp
next
  case (Cons pt ops)
  obtain p t where pt: "pt = (p, t)" by (cases pt)
  show ?case
  proof (cases "node_generator m p t")
    case (Inl e)
    then show ?thesis by (simp add: pt)
  next
    case (Inr node)
    then have "t \<in> set recognized_kinds"
      using node_generator_unknown [of t m p] by auto
    with Cons.prems pt have "\<exists>pt\<in>set ops. snd pt \<notin> set recognized_kinds" by auto
    then obtain e where "parse_graph_loop m ops (AList.update (node_name node) node nodes) = Inl e"
      using Cons.IH by blast
    with Inr show ?thesis by (simp add: pt)
  qed
qed

lemma parse_graph_unknown:
  assumes "\<exists>p\<in>set (operators m). op_code p \<notin> set recognized_kinds"
  shows "\<exists>e. parse_graph m = Inl e"
proof -
  from assms obtain p where p: "p \<in> set (operators m)" "op_code p \<notin> set recognized_kinds"
    by blast
  then have "(p, op_code p) \<in> set (zip (operators m) (map op_code (operators m)))"
    by (auto simp add: zip_map2 zip_same_conv_map)
  with p(2) have "\<exists>pt\<in>set (zip (operators m) (map op_code (operators m))). snd pt \<notin> set recognized_kinds"
    by force
  then show ?thesis
    using parse_graph_loop_unknown by (simp add: parse_graph_def init_op_info_def)
qed

text \<open>
  C4. When some operator of the source model has a kind that is not among the 21
  recognized kinds, graph construction raises: \<open>parse_graph\<close> fails, and with it
  \<open>Tree\<close>. The driver then fails with that error whatever the lowering routines are
  (with \<open>IndexError\<close>, even earlier, when the model declares no input), so no lowering
  routine has produced a node and no model is written.
\<close>

theorem unknown_operator_is_fatal:
  "(\<exists>p\<in>set (operators m). op_code p \<notin> set recognized_kinds) \<longrightarrow>
     (\<exists>e. parse_graph m = Inl e \<and> Tree m defuse = Inl e \<and>
        (\<forall>lower. main lower m add_transpose =
                    Inl (if input_details m = [] then IndexError else e)))"
proof
  assume "\<exists>p\<in>set (operators m). op_code p \<notin> set recognized_kinds"
  then obtain e where e: "parse_graph m = Inl e"
    using parse_graph_unknown by blast
  then have t: "\<And>d. Tree m d = Inl e" by (simp add: Tree_def)
  have "main lower m add_transpose = Inl (if input_details m = [] then IndexError else e)" for lower
    by (cases "input_details m") (simp_all add: main_def t Let_def)
  with e t show "\<exists>e. parse_graph m = Inl e \<and> Tree m defuse = Inl e \<and>
        (\<forall>lower. main lower m add_transpose =
                    Inl (if input_details m = [] then IndexError else e))"
    by blast
qed

theorem unknown_operator_is_fatal_witness:
  "28 \<notin> set recognized_kinds \<and>
   parse_graph unknown_op_model = Inl (UnknownOperator 28) \<and>
   main aact_generate unknown_op_model True = Inl (UnknownOperator 28) \<and>
   main aact_generate unknown_op_model False = Inl (UnknownOperator 28)"
proof -
  have a: "\<exists>p\<in>set (operators unknown_op_model). op_code p \<notin> set recognized_kinds"
    by code_simp
  have b: "parse_graph unknown_op_model = Inl (UnknownOperator 28)"
    by code_simp
  have c: "input_details unknown_op_model \<noteq> []"
    by (simp add: unknown_op_model_def)
  have d: "28 \<notin> set recognized_kinds" by code_simp
  from unknown_operator_is_fatal [of unknown_op_model False True] a b c
  have "main aact_generate unknown_op_model True = Inl (UnknownOperator 28)" by auto
  moreover from unknown_operator_is_fatal [of unknown_op_model False False] a b c
  have "main aact_generate unknown_op_model False = Inl (UnknownOperator 28)" by auto
  ultimately show ?thesis using b d by simp
qed

section \<open>The driver builds the graph without de-fusion\<close>

lemma all_nodes_map_entry:
  assumes "all_nodes P g" "\<And>n. P n \<Longrightarrow> P (f n)"
  shows "all_nodes P (AList.map_entry k f g)"
  using assms by (induction g) (auto simp add: all_nodes_def)

lemma all_nodes_update:
  assumes "all_nodes P g" "P v"
  shows "all_nodes P (AList.update k v g)"
  using assms by (induction g) (auto simp add: all_nodes_def)

lemma all_nodes_lookup:
  "all_nodes P g \<Longrightarrow> map_of g k = Some n \<Longrightarrow> P n"
  by (force simp add: all_nodes_def dest: map_of_SomeD)

lemma parse_graph_loop_not_synthesized:
  assumes "parse_graph_loop m ops nodes = Inr g" "all_nodes (\<lambda>n. \<not> synthesized n) nodes"
  shows "all_nodes (\<lambda>n. \<not> synthesized n) g"
  using assms
proof (induction ops arbitrary: nodes)
  case Nil
  then show ?case by simp
next
  case (Cons pt ops)
  obtain p t where pt: "pt = (p, t)" by (cases pt)
  from Cons.prems(1) obtain node where
    n: "node_generator m p t = Inr node"
    and r: "parse_graph_loop m ops (AList.update (node_name node) node nodes) = Inr g"
    by (auto simp add: pt split: sum.splits)
  from n have "\<not> synthesized node" by (rule node_generator_not_synthesized)
  with Cons.prems(2) have "all_nodes (\<lambda>n. \<not> synthesized n) (AList.update (node_name node) node nodes)"
    by (intro all_nodes_update)
  with r show ?case by (rule Cons.IH)
qed

lemma eliminate_side_input_not_synthesized:
  assumes "all_nodes (\<lambda>n. \<not> synthesized n) nodes"
  shows "all_nodes (\<lambda>n. \<not> synthesized n) (eliminate_side_input nodes)"
  using assms by (auto simp add: all_nodes_def eliminate_side_input_def Let_def synthesized_def)

lemma append_output_idx_class:
  assumes "append_output_idx d idx is nodes = Inr g" "all_nodes (\<lambda>n. Q (layer_class n)) nodes"
  shows "all_nodes (\<lambda>n. Q (layer_class n)) g"
  using assms
proof (induction "is" arbitrary: nodes)
  case Nil
  then show ?case by simp
next
  case (Cons i "is")
  from Cons.prems(1) obtain k where
    r: "append_output_idx d idx is
          (AList.map_entry k (\<lambda>n. n\<lparr>output_nodes_idx := output_nodes_idx n @ [idx]\<rparr>) nodes) = Inr g"
    by (auto split: option.splits)
  show ?case
    by (rule Cons.IH [OF r]) (rule all_nodes_map_entry [OF Cons.prems(2)], simp)
qed

lemma init_output_idx_loop_class:
  assumes "init_output_idx_loop d ds nodes = Inr g" "all_nodes (\<lambda>n. Q (layer_class n)) nodes"
  shows "all_nodes (\<lambda>n. Q (layer_class n)) g"
  using assms
proof (induction ds arbitrary: nodes)
  case Nil
  then show ?case by simp
next
  case (Cons ik ds)
  obtain idx k where ik: "ik = (idx, k)" by (cases ik)
  from Cons.prems(1) have "\<exists>(node::layer) nodes'.
      append_output_idx d idx (input_nodes_idx node) nodes = Inr nodes' \<and>
      init_output_idx_loop d ds nodes' = Inr g"
    by (auto simp add: ik split: option.splits sum.splits)
  then obtain node :: layer and nodes' where
    a: "append_output_idx d idx (input_nodes_idx node) nodes = Inr nodes'"
    and r: "init_output_idx_loop d ds nodes' = Inr g"
    by blast
  from a Cons.prems(2) have "all_nodes (\<lambda>n. Q (layer_class n)) nodes'"
    by (rule append_output_idx_class)
  with r show ?case by (rule Cons.IH)
qed

lemma copy_output_idx_loop_class:
  assumes "copy_output_idx_loop ds nodes = Inr g" "all_nodes (\<lambda>n. Q (layer_class n)) nodes"
  shows "all_nodes (\<lambda>n. Q (layer_class n)) g"
  using assms
proof (induction ds arbitrary: nodes)
  case Nil
  then show ?case by simp
next
  case (Cons ik ds)
  obtain idx k where ik: "ik = (idx, k)" by (cases ik)
  from Cons.prems(1) have "\<exists>node::layer. copy_output_idx_loop ds
          (AList.map_entry (node_name node) (\<lambda>n. n\<lparr>output_nodes_idx := output_nodes_idx node\<rparr>) nodes) = Inr g"
    by (auto simp add: ik split: option.splits)
  then obtain node :: layer where
    r: "copy_output_idx_loop ds
          (AList.map_entry (node_name node) (\<lambda>n. n\<lparr>output_nodes_idx := output_nodes_idx node\<rparr>) nodes) = Inr g"
    by blast
  show ?case
    by (rule Cons.IH [OF r]) (rule all_nodes_map_entry [OF Cons.prems(2)], simp)
qed

lemma append_output_name_class:
  assumes "append_output_name k ins nodes = Inr g" "all_nodes (\<lambda>n. Q (layer_class n)) nodes"
  shows "all_nodes (\<lambda>n. Q (layer_class n)) g"
  using assms
proof (induction ins arbitrary: nodes)
  case Nil
  then show ?case by simp
next
  case (Cons i ins)
  let ?next = "\<lambda>producer::layer. (if \<not> (k \<in> set (output_nodes_name producer)) then
               AList.map_entry i
                 (\<lambda>n. n\<lparr>output_nodes_name := output_nodes_name n @ [k]\<rparr>) nodes
             else nodes)"
  have "\<exists>producer::layer. append_output_name k ins (?next producer) = Inr g"
  proof (cases "map_of nodes i")
    case None
    with Cons.prems(1) show ?thesis by simp
  next
    case (Some producer)
    with Cons.prems(1) have "append_output_name k ins (?next producer) = Inr g" by simp
    then show ?thesis ..
  qed
  then obtain producer :: layer where r: "append_output_name k ins (?next producer) = Inr g"
    by blast
  have "all_nodes (\<lambda>n. Q (layer_class n)) (?next producer)"
    using Cons.prems(2) by (simp add: all_nodes_map_entry)
  with r show ?case by (rule Cons.IH)
qed

lemma init_output_name_loop_class:
  assumes "init_output_name_loop ks nodes = Inr g" "all_nodes (\<lambda>n. Q (layer_class n)) nodes"
  shows "all_nodes (\<lambda>n. Q (layer_class n)) g"
  using assms
proof (induction ks arbitrary: nodes)
  case Nil
  then show ?case by simp
next
  case (Cons k ks)
  from Cons.prems(1) have "\<exists>(node::layer) nodes'.
      append_output_name k (input_nodes_name node) nodes = Inr nodes' \<and>
      init_output_name_loop ks nodes' = Inr g"
    by (auto split: option.splits sum.splits)
  then obtain node :: layer and nodes' where
    a: "append_output_name k (input_nodes_name node) nodes = Inr nodes'"
    and r: "init_output_name_loop ks nodes' = Inr g"
    by blast
  from a Cons.prems(2) have "all_nodes (\<lambda>n. Q (layer_class n)) nodes'"
    by (rule append_output_name_class)
  with r show ?case by (rule Cons.IH)
qed

lemma init_outputs_node_info_class:
  assumes "init_outputs_node_info nodes = Inr g" "all_nodes (\<lambda>n. Q (layer_class n)) nodes"
  shows "all_nodes (\<lambda>n. Q (layer_class n)) g"
proof -
  from assms(1) obtain nodes1 nodes2 where
    a: "init_output_idx_loop (nodes_idx_dict_of nodes) (nodes_idx_dict_of nodes) nodes = Inr nodes1"
    and b: "copy_output_idx_loop (nodes_idx_dict_of nodes) nodes1 = Inr nodes2"
    and c: "init_output_name_loop (map fst nodes2) nodes2 = Inr g"
    by (auto simp add: init_outputs_node_info_def Let_def split: sum.splits)
  from a assms(2) have "all_nodes (\<lambda>n. Q (layer_class n)) nodes1"
    by (rule init_output_idx_loop_class)
  with b have "all_nodes (\<lambda>n. Q (layer_class n)) nodes2"
    by (rule copy_output_idx_loop_class)
  with c show ?thesis by (rule init_output_name_loop_class)
qed

lemma Tree_no_defuse_not_synthesized:
  assumes "Tree m False = Inr (g, ws)"
  shows "ws = [] \<and> all_nodes (\<lambda>n. \<not> synthesized n) g"
proof -
  from assms obtain nodes where
    p: "parse_graph m = Inr nodes"
    and i: "init_outputs_node_info (eliminate_side_input nodes) = Inr g"
    and w: "ws = []"
    by (auto simp add: Tree_def defused_def split: sum.splits)
  from p have "parse_graph_loop m (zip (operators m) (map op_code (operators m))) [] = Inr nodes"
    by (simp add: parse_graph_def init_op_info_def)
  then have "all_nodes (\<lambda>n. \<not> synthesized n) nodes"
    by (rule parse_graph_loop_not_synthesized) (simp add: all_nodes_def)
  then have "all_nodes (\<lambda>n. \<not> synthesized n) (eliminate_side_input nodes)"
    by (rule eliminate_side_input_not_synthesized)
  then have "all_nodes (\<lambda>n. \<not> synthesized n) g"
    unfolding synthesized_def
    using init_outputs_node_info_class [OF i, of "\<lambda>c. \<not> (c = ReluDefused \<or> c = Relu6Defused)"]
    by simp
  with w show ?thesis by simp
qed

lemma main_loop_cong:
  assumes "\<And>key node prevs table. key \<in> set keys \<Longrightarrow> map_of tree_dict key = Some node \<Longrightarrow>
             lower1 m node prevs table = lower2 m node prevs table"
  shows "main_loop lower1 m add_transpose model_input_name tree_dict keys st =
         main_loop lower2 m add_transpose model_input_name tree_dict keys st"
  using assms
proof (induction keys arbitrary: st)
  case Nil
  then show ?case by simp
next
  case (Cons key keys)
  have s: "main_step lower1 m add_transpose model_input_name tree_dict key st =
           main_step lower2 m add_transpose model_input_name tree_dict key st"
    using Cons.prems [of key]
    by (auto simp add: main_step_def split: option.splits sum.splits)
  have "\<And>st'. main_loop lower1 m add_transpose model_input_name tree_dict keys st' =
         main_loop lower2 m add_transpose model_input_name tree_dict keys st'"
    using Cons.prems by (intro Cons.IH) auto
  with s show ?case by (simp split: sum.splits)
qed

text \<open>
  C9. The driver builds its graph with \<open>Tree m False\<close>, for every model and either
  value of the boundary-conversion flag. That graph comes with no de-fusion warning and
  holds no node of the synthesized classes \<open>ReluDefused\<close> and \<open>Relu6Defused\<close>;
  and the result of the driver does not depend on what the lowering routines do on
  synthesized nodes: it lowers none.
\<close>

theorem driver_never_defuses:
  "(Tree m False = Inr (g, ws) \<longrightarrow>
      ws = [] \<and> (\<forall>kv\<in>set g. \<not> synthesized (snd kv))) \<and>
   ((\<forall>l prevs table. \<not> synthesized l \<longrightarrow> lower1 m l prevs table = lower2 m l prevs table) \<longrightarrow>
      main lower1 m add_transpose = main lower2 m add_transpose)"
proof (rule conjI; rule impI)
  assume "Tree m False = Inr (g, ws)"
  then show "ws = [] \<and> (\<forall>kv\<in>set g. \<not> synthesized (snd kv))"
    using Tree_no_defuse_not_synthesized [of m g ws] by (simp add: all_nodes_def)
next
  assume h: "\<forall>l prevs table. \<not> synthesized l \<longrightarrow> lower1 m l prevs table = lower2 m l prevs table"
  show "main lower1 m add_transpose = main lower2 m add_transpose"
  proof (cases "input_details m")
    case Nil
    then show ?thesis by (simp add: main_def)
  next
    case (Cons d0 ds)
    show ?thesis
    proof (cases "Tree m False")
      case (Inl e)
      with Cons show ?thesis by (simp add: main_def Let_def)
    next
      case (Inr gw)
      obtain tree_dict ws' where gw: "gw = (tree_dict, ws')" by (cases gw)
      from Inr gw have a: "all_nodes (\<lambda>n. \<not> synthesized n) tree_dict"
        using Tree_no_defuse_not_synthesized by blast
      have "main_loop lower1 m add_transpose (t_name d0) tree_dict (map fst tree_dict) st =
            main_loop lower2 m add_transpose (t_name d0) tree_dict (map fst tree_dict) st" for st
        using h a by (intro main_loop_cong) (auto dest: all_nodes_lookup)
      with Cons Inr gw show ?thesis by (simp add: main_def Let_def)
    qed
  qed
qed

lemma relu_softmax_nodes_value:
  "Tree relu_softmax_model False = Inr (relu_softmax_nodes, []) \<and>
   relu_softmax_nodes =
     [(''r'',
       \<lparr>layer_class = Relu,
        op = Some \<lparr>op_inputs = [0], op_output0 = 1, op_code = 19, op_fused = None\<rparr>,
        op_type = 19, node_idx = 1, node_name = ''r'',
        input_nodes_idx = [], input_nodes_name = [],
        output_nodes_idx = [2], output_nodes_name = [''s'']\<rparr>),
      (''s'',
       \<lparr>layer_class = Softmax,
        op = Some \<lparr>op_inputs = [1], op_output0 = 2, op_code = 25, op_fused = None\<rparr>,
        op_type = 25, node_idx = 2, node_name = ''s'',
        input_nodes_idx = [1], input_nodes_name = [''r''],
        output_nodes_idx = [], output_nodes_name = []\<rparr>)]"
  by code_simp

lemma fused_conv_relu_nodes_value:
  "Tree (fused_conv_model 1) False = Inr (fused_conv_relu_nodes, []) \<and>
   fused_conv_relu_nodes =
     [(''conv'',
       \<lparr>layer_class = Convolution,
        op = Some \<lparr>op_inputs = [0, 1, 2], op_output0 = 3, op_code = 3, op_fused = Some 1\<rparr>,
        op_type = 3, node_idx = 3, node_name = ''conv'',
        input_nodes_idx = [], input_nodes_name = [],
        output_nodes_idx = [4], output_nodes_name = [''out'']\<rparr>),
      (''out'',
       \<lparr>layer_class = Softmax,
        op = Some \<lparr>op_inputs = [3], op_output0 = 4, op_code = 25, op_fused = None\<rparr>,
        op_type = 25, node_idx = 4, node_name = ''out'',
        input_nodes_idx = [3], input_nodes_name = [''conv''],
        output_nodes_idx = [], output_nodes_name = []\<rparr>)]"
  by code_simp

lemma fused_conv_single_nodes:
  "main single_node_generate (fused_conv_model 1) True =
     Inr \<lparr>g_nodes =
        [\<lparr>n_op_type = ''Transpose'', n_name = ''transpose_node_input_x'',
          n_inputs = [''x''], n_outputs = [''transpose_node_input_x''],
          n_attrs = [(''perm'', [0, 3, 1, 2])]\<rparr>,
         \<lparr>n_op_type = ''Layer'', n_name = ''conv'',
          n_inputs = [''transpose_node_input_x''], n_outputs = [''conv''], n_attrs = []\<rparr>,
         \<lparr>n_op_type = ''Layer'', n_name = ''out'', n_inputs = [''conv''],
          n_outputs = [''out''], n_attrs = []\<rparr>,
         \<lparr>n_op_type = ''Transpose'', n_name = ''transpose_node_output_out'',
          n_inputs = [''out''], n_outputs = [''out_out''],
          n_attrs = [(''perm'', [0, 2, 3, 1])]\<rparr>],
      g_inputs = [\<lparr>vi_name = ''x'', vi_shape = Some [1, 7, 7, 3]\<rparr>],
      g_outputs = [\<lparr>vi_name = ''out_out'', vi_shape = Some [1, 5, 5, 8]\<rparr>],
      g_initializer = [], g_value_info = []\<rparr>"
  by code_simp

theorem driver_never_defuses_witness:
  "fusable (the (map_of fused_conv_relu_nodes ''conv'')) \<and>
   Tree (fused_conv_model 1) False = Inr (fused_conv_relu_nodes, []) \<and>
   map (\<lambda>kv. (fst kv, synthesized (snd kv))) fused_conv_relu_nodes =
     [(''conv'', False), (''out'', False)] \<and>
   main single_node_unless_synthesized (fused_conv_model 1) True =
     Inr \<lparr>g_nodes =
        [\<lparr>n_op_type = ''Transpose'', n_name = ''transpose_node_input_x'',
          n_inputs = [''x''], n_outputs = [''transpose_node_input_x''],
          n_attrs = [(''perm'', [0, 3, 1, 2])]\<rparr>,
         \<lparr>n_op_type = ''Layer'', n_name = ''conv'',
          n_inputs = [''transpose_node_input_x''], n_outputs = [''conv''], n_attrs = []\<rparr>,
         \<lparr>n_op_type = ''Layer'', n_name = ''out'', n_inputs = [''conv''],
          n_outputs = [''out''], n_attrs = []\<rparr>,
         \<lparr>n_op_type = ''Transpose'', n_name = ''transpose_node_output_out'',
          n_inputs = [''out''], n_outputs = [''out_out''],
          n_attrs = [(''perm'', [0, 2, 3, 1])]\<rparr>],
      g_inputs = [\<lparr>vi_name = ''x'', vi_shape = Some [1, 7, 7, 3]\<rparr>],
      g_outputs = [\<lparr>vi_name = ''out_out'', vi_shape = Some [1, 5, 5, 8]\<rparr>],
      g_initializer = [], g_value_info = []\<rparr>"
proof -
  have a: "Tree (fused_conv_model 1) False = Inr (fused_conv_relu_nodes, [])"
    using fused_conv_relu_nodes_value by simp
  have b: "\<forall>l prevs table. \<not> synthesized l \<longrightarrow>
      single_node_generate (fused_conv_model 1) l prevs table =
      single_node_unless_synthesized (fused_conv_model 1) l prevs table"
    by (simp add: single_node_unless_synthesized_def)
  note t = driver_never_defuses
         [of "fused_conv_model 1" fused_conv_relu_nodes "[]" single_node_generate
             single_node_unless_synthesized True]
  from t a have c: "\<forall>kv\<in>set fused_conv_relu_nodes. \<not> synthesized (snd kv)" by blast
  from t b have d: "main single_node_generate (fused_conv_model 1) True =
      main single_node_unless_synthesized (fused_conv_model 1) True"
    by blast
  have e: "map fst fused_conv_relu_nodes = [''conv'', ''out'']"
    by (simp add: fused_conv_relu_nodes_value)
  from c have f: "map (\<lambda>kv. (fst kv, synthesized (snd kv))) fused_conv_relu_nodes =
      map (\<lambda>kv. (fst kv, False)) fused_conv_relu_nodes"
    by simp
  have g: "map (\<lambda>kv. (fst kv, False)) fused_conv_relu_nodes = [(''conv'', False), (''out'', False)]"
    by (simp add: fused_conv_relu_nodes_value)
  have h: "fusable (the (map_of fused_conv_relu_nodes ''conv''))"
    by (simp add: fused_conv_relu_nodes_value fusable_def keeps_base_defuse_def
        ActivationFunctionType_RELU_def)
  note i = d [symmetric]
  show ?thesis
    using h a f g unfolding i fused_conv_single_nodes by simp
qed

section \<open>Boundary conversion disabled\<close>

lemma update_end_node_set:
  "x \<in> set (update_end_node f ns) \<Longrightarrow> x \<in> set ns \<or> (\<exists>n\<in>set ns. x = f n)"
  by (induction ns) (auto split: if_splits)

lemma get_output_node_info_member:
  "get_output_node_info_by_name_if_exist k m = Some d \<Longrightarrow> d \<in> set (output_details m)"
  by (auto simp add: get_output_node_info_by_name_if_exist_def find_Some_iff)

lemma finish_step_disabled:
  assumes f: "finish_step m False key (ns, vs, ws) st = Inr st'"
    and l: "\<forall>n\<in>set ns. lowered_node lower m n"
    and n0: "\<And>n0. n0 \<in> set ns \<Longrightarrow> lowered_node lower m (n0\<lparr>n_outputs := [''out_'' @ n_name n0]\<rparr>)"
    and i1: "\<forall>n\<in>set (onnx_node_list st). lowered_node lower m n"
    and i2: "channel_first_outputs m (output_tensor_value_info st)"
  shows "(\<forall>n\<in>set (onnx_node_list st'). lowered_node lower m n) \<and>
         channel_first_outputs m (output_tensor_value_info st')"
proof (cases "get_output_node_info_by_name_if_exist key m")
  case None
  with f have "onnx_node_list st' = onnx_node_list st @ ns"
    and "output_tensor_value_info st' = output_tensor_value_info st"
    by (auto simp add: finish_step_def Let_def)
  with l i1 i2 show ?thesis by auto
next
  case (Some d)
  let ?sub = "filter (\<lambda>node. n_op_type node \<noteq> ''Constant'') ns"
  let ?e = "(last ?sub)\<lparr>n_outputs := [''out_'' @ n_name (last ?sub)]\<rparr>"
  from f Some have ne: "?sub \<noteq> []"
    by (auto simp add: finish_step_def Let_def split: if_splits)
  then have "last ?sub \<in> set ?sub" by (rule last_in_set)
  then have e: "lowered_node lower m ?e" using n0 by auto
  from f Some ne have a: "onnx_node_list st' = onnx_node_list st @ update_end_node (\<lambda>n. ?e) ns"
    and b: "output_tensor_value_info st' = output_tensor_value_info st @
              [make_tensor_value_info (''out_'' @ n_name (last ?sub)) (tflite2onnx_shape_map (t_shape d))]"
    by (auto simp add: finish_step_def Let_def set_end_node_def)
  have "\<forall>n\<in>set (update_end_node (\<lambda>n. ?e) ns). lowered_node lower m n"
    using l e by (auto dest!: update_end_node_set)
  with a i1 have c: "\<forall>n\<in>set (onnx_node_list st'). lowered_node lower m n" by auto
  from Some have "d \<in> set (output_details m)" by (rule get_output_node_info_member)
  with b i2 have "channel_first_outputs m (output_tensor_value_info st')"
    by (auto simp add: channel_first_outputs_def make_tensor_value_info_def)
  with c show ?thesis by simp
qed

lemma main_step_disabled:
  assumes s: "main_step lower m False model_input_name tree_dict key st = Inr st'"
    and i1: "\<forall>n\<in>set (onnx_node_list st). lowered_node lower m n"
    and i2: "channel_first_outputs m (output_tensor_value_info st)"
  shows "(\<forall>n\<in>set (onnx_node_list st'). lowered_node lower m n) \<and>
         channel_first_outputs m (output_tensor_value_info st')"
proof -
  from s have "\<exists>(node::layer) prevs table ns vs ws.
      lower m node prevs table = Inr (ns, vs, ws) \<and>
      finish_step m False key (ns, vs, ws) st = Inr st'"
    by (auto simp add: main_step_def split: option.splits sum.splits) blast
  then obtain node :: layer and prevs table ns vs ws where
    lw: "lower m node prevs table = Inr (ns, vs, ws)"
    and f: "finish_step m False key (ns, vs, ws) st = Inr st'"
    by blast
  have l: "\<forall>n\<in>set ns. lowered_node lower m n"
    using lw unfolding lowered_node_def by blast
  have n0: "\<And>n0. n0 \<in> set ns \<Longrightarrow> lowered_node lower m (n0\<lparr>n_outputs := [''out_'' @ n_name n0]\<rparr>)"
    using lw unfolding lowered_node_def by blast
  from f l n0 i1 i2 show ?thesis by (rule finish_step_disabled)
qed

lemma main_loop_disabled:
  assumes "main_loop lower m False model_input_name tree_dict keys st = Inr st'"
    and "\<forall>n\<in>set (onnx_node_list st). lowered_node lower m n"
    and "channel_first_outputs m (output_tensor_value_info st)"
  shows "(\<forall>n\<in>set (onnx_node_list st'). lowered_node lower m n) \<and>
         channel_first_outputs m (output_tensor_value_info st')"
  using assms
proof (induction keys arbitrary: st)
  case Nil
  then show ?case by simp
next
  case (Cons key keys)
  from Cons.prems(1) obtain st1 where
    s: "main_step lower m False model_input_name tree_dict key st = Inr st1"
    and r: "main_loop lower m False model_input_name tree_dict keys st1 = Inr st'"
    by (auto split: sum.splits)
  from main_step_disabled [OF s Cons.prems(2) Cons.prems(3)]
  show ?case using Cons.IH [OF r] by simp
qed

lemma finish_step_output_shapes:
  assumes "finish_step m False key r st = Inr st'"
  shows "map vi_shape (output_tensor_value_info st') =
         map vi_shape (output_tensor_value_info st) @
           (if declared_output m key then [mapped_output_shape m key] else [])"
proof -
  obtain ns vs ws where r: "r = (ns, vs, ws)" by (cases r)
  show ?thesis
  proof (cases "get_output_node_info_by_name_if_exist key m")
    case None
    with assms r show ?thesis
      by (auto simp add: finish_step_def Let_def declared_output_def)
  next
    case (Some d)
    with assms r show ?thesis
      by (auto simp add: finish_step_def Let_def declared_output_def mapped_output_shape_def
          set_end_node_def make_tensor_value_info_def split: if_splits)
  qed
qed

lemma main_step_output_shapes:
  assumes "main_step lower m False model_input_name tree_dict key st = Inr st'"
  shows "map vi_shape (output_tensor_value_info st') =
         map vi_shape (output_tensor_value_info st) @
           (if declared_output m key then [mapped_output_shape m key] else [])"
proof -
  from assms have "\<exists>r. finish_step m False key r st = Inr st'"
    by (auto simp add: main_step_def split: option.splits sum.splits) blast
  then show ?thesis using finish_step_output_shapes by blast
qed

lemma main_loop_output_shapes:
  assumes "main_loop lower m False model_input_name tree_dict keys st = Inr st'"
  shows "map vi_shape (output_tensor_value_info st') =
         map vi_shape (output_tensor_value_info st) @
           map (mapped_output_shape m) (filter (declared_output m) keys)"
  using assms
proof (induction keys arbitrary: st)
  case Nil
  then show ?case by simp
next
  case (Cons key keys)
  from Cons.prems obtain st1 where
    s: "main_step lower m False model_input_name tree_dict key st = Inr st1"
    and r: "main_loop lower m False model_input_name tree_dict keys st1 = Inr st'"
    by (auto split: sum.splits)
  from main_step_output_shapes [OF s] Cons.IH [OF r] show ?case by simp
qed

text \<open>
  C7 (as amended). With boundary conversion disabled, a successful run of the driver
  declares the model input with the shape \<open>tflite2onnx_shape_map\<close> gives for the source
  shape: channel-first for rank 4, absent for another rank. The output annotations are, in
  the order of the keys of the graph, one for each key that is a declared output, each
  with the mapped shape of the output detail found under that key. And every node of the
  assembled graph is a node some lowering call returned, with at most its outputs renamed:
  no transpose is added at the input or at an output.
\<close>

theorem disabled_boundary_conversion:
  "main lower m False = Inr G \<longrightarrow>
     (\<exists>d0 ds tree_dict ws.
        input_details m = d0 # ds \<and> Tree m False = Inr (tree_dict, ws) \<and>
        hd (g_inputs G) =
          \<lparr>vi_name = t_name d0, vi_shape = tflite2onnx_shape_map (t_shape d0)\<rparr> \<and>
        map vi_shape (g_outputs G) =
          map (mapped_output_shape m) (filter (declared_output m) (map fst tree_dict))) \<and>
     channel_first_outputs m (g_outputs G) \<and>
     (\<forall>n\<in>set (g_nodes G). lowered_node lower m n)"
proof
  assume a: "main lower m False = Inr G"
  then obtain d0 ds where d: "input_details m = d0 # ds"
    by (cases "input_details m") (auto simp add: main_def)
  from a d obtain tree_dict ws st where
    t: "Tree m False = Inr (tree_dict, ws)"
    and l: "main_loop lower m False (t_name d0) tree_dict (map fst tree_dict)
          (initial_state False (t_name d0) (t_shape d0)) = Inr st"
    and g: "G = \<lparr>g_nodes = onnx_node_list st,
                 g_inputs = make_kneron_valid_onnx_input
                              (input_value_info False (t_name d0) (t_shape d0))
                              (onnx_weight_node_list st),
                 g_outputs = output_tensor_value_info st,
                 g_initializer = onnx_weight_node_list st,
                 g_value_info = inner_node_shape_value_info st\<rparr>"
    by (auto simp add: main_def Let_def split: sum.splits prod.splits)
  have "(\<forall>n\<in>set (onnx_node_list st). lowered_node lower m n) \<and>
         channel_first_outputs m (output_tensor_value_info st)"
    by (rule main_loop_disabled [OF l])
       (simp_all add: initial_state_def channel_first_outputs_def)
  moreover have "hd (g_inputs G) =
      \<lparr>vi_name = t_name d0, vi_shape = tflite2onnx_shape_map (t_shape d0)\<rparr>"
    by (simp add: g make_kneron_valid_onnx_input_def input_value_info_def
        make_tensor_value_info_def)
  moreover have "map vi_shape (g_outputs G) =
      map (mapped_output_shape m) (filter (declared_output m) (map fst tree_dict))"
    using main_loop_output_shapes [OF l] by (simp add: g initial_state_def)
  ultimately show "(\<exists>d0 ds tree_dict ws.
        input_details m = d0 # ds \<and> Tree m False = Inr (tree_dict, ws) \<and>
        hd (g_inputs G) =
          \<lparr>vi_name = t_name d0, vi_shape = tflite2onnx_shape_map (t_shape d0)\<rparr> \<and>
        map vi_shape (g_outputs G) =
          map (mapped_output_shape m) (filter (declared_output m) (map fst tree_dict))) \<and>
     channel_first_outputs m (g_outputs G) \<and>
     (\<forall>n\<in>set (g_nodes G). lowered_node lower m n)"
    using d t by (simp add: g)
qed

lemma relu_softmax_graph_disabled:
  "main aact_generate relu_softmax_model False = Inr (relu_softmax_graph False) \<and>
   relu_softmax_graph False =
     \<lparr>g_nodes =
        [\<lparr>n_op_type = ''Relu'', n_name = ''r'', n_inputs = [''x''],
          n_outputs = [''r''], n_attrs = []\<rparr>,
         \<lparr>n_op_type = ''Softmax'', n_name = ''s'', n_inputs = [''r''],
          n_outputs = [''out_s''], n_attrs = []\<rparr>],
      g_inputs = [\<lparr>vi_name = ''x'', vi_shape = Some [1, 3, 7, 7]\<rparr>],
      g_outputs = [\<lparr>vi_name = ''out_s'', vi_shape = Some [1, 3, 7, 7]\<rparr>],
      g_initializer = [],
      g_value_info = [\<lparr>vi_name = ''r'', vi_shape = Some [1, 3, 7, 7]\<rparr>]\<rparr>"
  by code_simp

lemma relu_reshape_graph_value:
  "main single_node_generate relu_reshape_model False = Inr relu_reshape_graph \<and>
   relu_reshape_graph =
     \<lparr>g_nodes =
        [\<lparr>n_op_type = ''Layer'', n_name = ''r'', n_inputs = [''x''],
          n_outputs = [''out_r''], n_attrs = []\<rparr>,
         \<lparr>n_op_type = ''Layer'', n_name = ''q'', n_inputs = [''r''],
          n_outputs = [''out_q''], n_attrs = []\<rparr>],
      g_inputs = [\<lparr>vi_name = ''x'', vi_shape = Some [1, 3, 7, 7]\<rparr>],
      g_outputs = [\<lparr>vi_name = ''out_r'', vi_shape = Some [1, 3, 7, 7]\<rparr>,
                   \<lparr>vi_name = ''out_q'', vi_shape = None\<rparr>],
      g_initializer = [], g_value_info = []\<rparr>"
  by code_simp

lemma relu_reshape_tree_keys:
  "map fst (tree_graph relu_reshape_model False) = [''r'', ''q''] \<and>
   Tree relu_reshape_model False = Inr (tree_graph relu_reshape_model False, [])"
  by code_simp

lemma relu_reshape_declared:
  "map (mapped_output_shape relu_reshape_model)
     (filter (declared_output relu_reshape_model) [''r'', ''q'']) = [Some [1, 3, 7, 7], None]"
  by code_simp

theorem disabled_boundary_conversion_witness:
  "main single_node_generate relu_reshape_model False = Inr relu_reshape_graph \<and>
   map t_shape (output_details relu_reshape_model) = [[1, 49, 3], [1, 7, 7, 3]] \<and>
   hd (g_inputs relu_reshape_graph) = \<lparr>vi_name = ''x'', vi_shape = Some [1, 3, 7, 7]\<rparr> \<and>
   map vi_name (g_outputs relu_reshape_graph) = [''out_r'', ''out_q''] \<and>
   map vi_shape (g_outputs relu_reshape_graph) = [Some [1, 3, 7, 7], None] \<and>
   list_all (lowered_node single_node_generate relu_reshape_model)
     (g_nodes relu_reshape_graph)"
proof -
  have a: "main single_node_generate relu_reshape_model False = Inr relu_reshape_graph"
    using relu_reshape_graph_value by simp
  note t = disabled_boundary_conversion
             [of single_node_generate relu_reshape_model relu_reshape_graph]
  from t a obtain tree_dict ws where
    tr: "Tree relu_reshape_model False = Inr (tree_dict, ws)"
    and sh: "map vi_shape (g_outputs relu_reshape_graph) =
          map (mapped_output_shape relu_reshape_model)
            (filter (declared_output relu_reshape_model) (map fst tree_dict))"
    by blast
  from tr relu_reshape_tree_keys have "map fst tree_dict = [''r'', ''q'']" by auto
  with sh relu_reshape_declared
  have b: "map vi_shape (g_outputs relu_reshape_graph) = [Some [1, 3, 7, 7], None]" by simp
  from t a have c: "\<forall>n\<in>set (g_nodes relu_reshape_graph).
           lowered_node single_node_generate relu_reshape_model n"
    by blast
  have d: "map t_shape (output_details relu_reshape_model) = [[1, 49, 3], [1, 7, 7, 3]]"
    by (simp add: relu_reshape_model_def tensor_def)
  have e: "hd (g_inputs relu_reshape_graph) = \<lparr>vi_name = ''x'', vi_shape = Some [1, 3, 7, 7]\<rparr>"
    "map vi_name (g_outputs relu_reshape_graph) = [''out_r'', ''out_q'']"
    by (simp_all add: relu_reshape_graph_value)
  from a b c d e show ?thesis by (simp add: list_all_iff)
qed

theorem disabled_boundary_conversion_counterexample:
  "main aact_generate relu_softmax_model False =
     Inr \<lparr>g_nodes =
            [\<lparr>n_op_type = ''Relu'', n_name = ''r'', n_inputs = [''x''],
              n_outputs = [''r''], n_attrs = []\<rparr>,
             \<lparr>n_op_type = ''Softmax'', n_name = ''s'', n_inputs = [''r''],
              n_outputs = [''out_s''], n_attrs = []\<rparr>],
          g_inputs = [\<lparr>vi_name = ''x'', vi_shape = Some [1, 3, 7, 7]\<rparr>],
          g_outputs = [\<lparr>vi_name = ''out_s'', vi_shape = Some [1, 3, 7, 7]\<rparr>],
          g_initializer = [],
          g_value_info = [\<lparr>vi_name = ''r'', vi_shape = Some [1, 3, 7, 7]\<rparr>]\<rparr> \<and>
   map t_shape (input_details relu_softmax_model) = [[1, 7, 7, 3]] \<and>
   map t_shape (output_details relu_softmax_model) = [[1, 7, 7, 3]]"
  using relu_softmax_graph_disabled by (simp add: relu_softmax_model_def tensor_def)

section \<open>The predecessor name handed to lowering\<close>





section \<open>Activation de-fusion: the pass on a graph ready for it\<close>


















section \<open>What the graph builder establishes\<close>

subsection \<open>Parsing\<close>







subsection \<open>The index loops\<close>






subsection \<open>The name loop\<close>





lemma map_of_map_entry:
  "map_of (AList.map_entry k f g) x =
     (if x = k then map_option f (map_of g k) else map_of g x)"
  by (induction g) auto





subsection \<open>The graph the builder makes\<close>










section \<open>Activation de-fusion: the rewiring of a split node\<close>











end
